theory Spec2Isabelle
  imports Main "HOL-Library.AList" "HOL-Library.Sublist" "HOL-Library.Word"
    "HOL-Library.Char_ord" "HOL-Library.List_Lexorder"
begin

section \<open>Go values\<close>

text \<open>
  The client passes dynamically typed values around (\<^verbatim>\<open>any\<close>, \<^verbatim>\<open>map[string]any\<close>).
  A float64 is its IEEE-754 bit pattern; the integer kinds carry their mathematical
  value (no arithmetic is done on them).  A Go map is the list of its entries, read
  with \<^const>\<open>map_of\<close>; a map that may be \<^verbatim>\<open>nil\<close> is an option of such a list.
\<close>

type_synonym float64 = "64 word"

record Message =
  Role :: string
  Content :: string

datatype any =
    ANil
  | ABool bool
  | AString string
  | AInt int
  | AFloat float64
  | ASlice "any list"
  | AMap "(string \<times> any) list"
  | AMessages "Message list"
  | AUnsupported

type_synonym gomap = "(string \<times> any) list"

text \<open>The comma-ok lookup \<^verbatim>\<open>_, ok := m[k]\<close>.\<close>

definition has_key :: "gomap \<Rightarrow> string \<Rightarrow> bool" where
  "has_key m k = (map_of m k \<noteq> None)"

section \<open>types/mem0.go: constants\<close>

definition V1 :: string where
  "V1 = ''v1''"

definition V2 :: string where
  "V2 = ''v2''"

definition DefaultAPIVersion :: string where
  "DefaultAPIVersion = V2"

definition IsDefault :: "string \<Rightarrow> bool" where
  "IsDefault v = (v = DefaultAPIVersion \<or> v = '''')"

definition SearchWildcard :: string where
  "SearchWildcard = ''*''"

section \<open>Library functions the encoder calls\<close>

text \<open>
  \<^verbatim>\<open>strconv.FormatUint\<close>, \<^verbatim>\<open>strconv.FormatInt\<close> (base 10), \<^verbatim>\<open>strconv.FormatBool\<close> and
  \<^verbatim>\<open>strings.Join\<close>.
\<close>

definition digit :: "nat \<Rightarrow> char" where
  "digit n = ''0123456789'' ! n"

function FormatUint :: "nat \<Rightarrow> string" where
  "FormatUint n = (if n < 10 then [digit n] else FormatUint (n div 10) @ [digit (n mod 10)])"
  by pat_completeness auto
termination
  by (relation "measure (\<lambda>n. n)") auto

declare FormatUint.simps [simp del]

definition FormatInt :: "int \<Rightarrow> string" where
  "FormatInt i = (if i < 0 then CHR ''-'' # FormatUint (nat (- i)) else FormatUint (nat i))"

definition FormatBool :: "bool \<Rightarrow> string" where
  "FormatBool b = (if b then ''true'' else ''false'')"

fun Join :: "string list \<Rightarrow> string \<Rightarrow> string" where
  "Join [] sep = []"
| "Join [x] sep = x"
| "Join (x # y # ys) sep = x @ sep @ Join (y # ys) sep"

text \<open>
  \<^verbatim>\<open>url.QueryEscape\<close>: letters, digits and \<^verbatim>\<open>-_.~\<close> stay, a space becomes \<^verbatim>\<open>+\<close>, every
  other byte becomes \<^verbatim>\<open>%XX\<close> in upper-case hexadecimal.
\<close>

definition alnum :: "char \<Rightarrow> bool" where
  "alnum c = ((CHR ''a'' \<le> c \<and> c \<le> CHR ''z'') \<or> (CHR ''A'' \<le> c \<and> c \<le> CHR ''Z'')
     \<or> (CHR ''0'' \<le> c \<and> c \<le> CHR ''9''))"

definition shouldEscape :: "char \<Rightarrow> bool" where
  "shouldEscape c = (\<not> (alnum c \<or> c \<in> set ''-_.~''))"

definition upperhex :: "nat \<Rightarrow> char" where
  "upperhex n = ''0123456789ABCDEF'' ! n"

definition escape_byte :: "char \<Rightarrow> string" where
  "escape_byte c =
     (if shouldEscape c
      then (if c = CHR '' '' then ''+''
            else [CHR ''%'', upperhex (of_char c div 16), upperhex (of_char c mod 16)])
      else [c])"

definition QueryEscape :: "string \<Rightarrow> string" where
  "QueryEscape s = concat (map escape_byte s)"

text \<open>
  \<^verbatim>\<open>url.Values\<close> is a map from a key to the list of its values; \<^verbatim>\<open>Add\<close> appends to
  that list.  The model keeps the \<^verbatim>\<open>Add\<close> calls in order.  \<^verbatim>\<open>Encode\<close> walks the keys in
  sorted order and writes \<^verbatim>\<open>key=value\<close> for every value of the key, joined by \<^verbatim>\<open>&\<close>.
\<close>

type_synonym Values = "(string \<times> string) list"

definition values_of :: "Values \<Rightarrow> string \<Rightarrow> string list" where
  "values_of vs k = map snd (filter (\<lambda>kv. fst kv = k) vs)"

definition Encode :: "Values \<Rightarrow> string" where
  "Encode vs =
     Join (concat (map (\<lambda>k. map (\<lambda>v. QueryEscape k @ ''='' @ QueryEscape v) (values_of vs k))
                    (sort (remdups (map fst vs))))) ''&''"

text \<open>
  \<^verbatim>\<open>url.ParseQuery\<close>, with which a query string is read back: the pieces between
  \<^verbatim>\<open>&\<close> are cut at their first \<^verbatim>\<open>=\<close> and both halves unescaped (\<^verbatim>\<open>+\<close> is a space,
  \<^verbatim>\<open>%XX\<close> a byte).  An empty piece is skipped; a piece with a semicolon or a bad
  escape is dropped and makes the call return an error beside the values.
\<close>

definition ishex :: "char \<Rightarrow> bool" where
  "ishex c = ((CHR ''0'' \<le> c \<and> c \<le> CHR ''9'') \<or> (CHR ''a'' \<le> c \<and> c \<le> CHR ''f'')
     \<or> (CHR ''A'' \<le> c \<and> c \<le> CHR ''F''))"

definition unhex :: "char \<Rightarrow> nat" where
  "unhex c =
     (if CHR ''0'' \<le> c \<and> c \<le> CHR ''9'' then of_char c - of_char CHR ''0''
      else if CHR ''a'' \<le> c \<and> c \<le> CHR ''f'' then of_char c - of_char CHR ''a'' + 10
      else if CHR ''A'' \<le> c \<and> c \<le> CHR ''F'' then of_char c - of_char CHR ''A'' + 10
      else 0)"

fun QueryUnescape :: "string \<Rightarrow> string option" where
  "QueryUnescape [] = Some []"
| "QueryUnescape (c # cs) =
     (if c = CHR ''%''
      then (case cs of
              h1 # h2 # rest \<Rightarrow>
                if ishex h1 \<and> ishex h2
                then map_option ((#) (char_of (unhex h1 * 16 + unhex h2))) (QueryUnescape rest)
                else None
            | _ \<Rightarrow> None)
      else if c = CHR ''+'' then map_option ((#) CHR '' '') (QueryUnescape cs)
      else map_option ((#) c) (QueryUnescape cs))"

fun pieces :: "char \<Rightarrow> string \<Rightarrow> string \<Rightarrow> string list" where
  "pieces sep acc [] = [rev acc]"
| "pieces sep acc (c # cs) =
     (if c = sep then rev acc # pieces sep [] cs else pieces sep (c # acc) cs)"

definition Cut :: "string \<Rightarrow> char \<Rightarrow> string \<times> string" where
  "Cut s sep = (takeWhile (\<lambda>c. c \<noteq> sep) s, drop 1 (dropWhile (\<lambda>c. c \<noteq> sep) s))"

text \<open>One piece: nothing for an empty piece, an error, or the pair it adds.\<close>

definition parse_piece :: "string \<Rightarrow> (unit + string \<times> string) list" where
  "parse_piece piece =
     (if CHR '';'' \<in> set piece then [Inl ()]
      else if piece = '''' then []
      else (case QueryUnescape (fst (Cut piece CHR ''='')) of
              None \<Rightarrow> [Inl ()]
            | Some key \<Rightarrow>
                (case QueryUnescape (snd (Cut piece CHR ''='')) of
                   None \<Rightarrow> [Inl ()]
                 | Some v \<Rightarrow> [Inr (key, v)])))"

text \<open>The values in the order they are added, and whether an error is returned.\<close>

definition ParseQuery :: "string \<Rightarrow> Values \<times> bool" where
  "ParseQuery query =
     (let parsed = concat (map parse_piece (pieces CHR ''&'' [] query))
      in (concat (map (\<lambda>r. case r of Inl e \<Rightarrow> [] | Inr kv \<Rightarrow> [kv]) parsed),
          Inl () \<in> set parsed))"

text \<open>
  A \<^verbatim>\<open>url.Values\<close> has no order among its keys: \<^verbatim>\<open>Encode\<close> writes the pairs key by key,
  the keys sorted and each key with its values in the order they were added.
\<close>

definition grouped :: "Values \<Rightarrow> Values" where
  "grouped vs = concat (map (\<lambda>k. map (Pair k) (values_of vs k)) (sort (remdups (map fst vs))))"

section \<open>types/mem0.go: the options objects\<close>

record CustomCategory =
  CategoryName :: string
  CategoryDescription :: string

text \<open>
  Modelled from the spec: the fields \<^verbatim>\<open>OrgName\<close> and \<^verbatim>\<open>ProjectName\<close> of
  \<^verbatim>\<open>MemoryOptions\<close>, which \<^verbatim>\<open>preparePayload\<close> and \<^verbatim>\<open>Search\<close> assign, are missing from
  the declaration in types/mem0.go.  Every options field is tagged with its wire name
  and skipped when zero (section 4.1); the two tags are written after those of the
  sibling fields \<^verbatim>\<open>OrgID\<close> and \<^verbatim>\<open>ProjectID\<close>.  All other fields are those of the
  declaration, in its order.  A nil map or slice is \<^const>\<open>None\<close>.
\<close>

record MemoryOptions =
  APIVersion :: string
  Version :: string
  UserID :: string
  AgentID :: string
  AppID :: string
  RunID :: string
  Timestamp :: int
  Metadata :: "gomap option"
  Filters :: "gomap option"
  OrgName :: string
  ProjectName :: string
  OrgID :: string
  ProjectID :: string
  Infer :: bool
  Page :: int
  PageSize :: int
  Includes :: string
  Excludes :: string
  EnableGraph :: bool
  StartDate :: string
  EndDate :: string
  CustomCategories :: "CustomCategory list option"
  CustomInstructions :: string
  Messages :: "Message list option"

record SearchOptions =
  MemoryOptions :: MemoryOptions
  EnableGraph :: bool
  Threshold :: float64
  TopK :: int
  OnlyMetadataBasedSearch :: bool
  KeywordSearch :: bool
  Fields :: "string list option"
  Categories :: "string list option"
  Rerank :: bool
  Version :: string

record ProjectOptions =
  Fields :: "string list option"

text \<open>The zero values \<^verbatim>\<open>types.MemoryOptions{}\<close> and \<^verbatim>\<open>types.SearchOptions{}\<close>.\<close>

definition MemoryOptions_zero :: MemoryOptions where
  "MemoryOptions_zero =
     \<lparr>APIVersion = '''', MemoryOptions.Version = '''', UserID = '''', AgentID = '''',
      AppID = '''', RunID = '''', Timestamp = 0, Metadata = None, Filters = None,
      OrgName = '''', ProjectName = '''', OrgID = '''', ProjectID = '''', Infer = False,
      Page = 0, PageSize = 0, Includes = '''', Excludes = '''',
      MemoryOptions.EnableGraph = False, StartDate = '''', EndDate = '''',
      CustomCategories = None, CustomInstructions = '''', Messages = None\<rparr>"

definition SearchOptions_zero :: SearchOptions where
  "SearchOptions_zero =
     \<lparr>MemoryOptions = MemoryOptions_zero, SearchOptions.EnableGraph = False, Threshold = 0,
      TopK = 0, OnlyMetadataBasedSearch = False, KeywordSearch = False,
      SearchOptions.Fields = None, Categories = None, Rerank = False,
      SearchOptions.Version = ''''\<rparr>"

section \<open>types/mem0.go: the query encoder\<close>

text \<open>
  What \<^verbatim>\<open>reflect\<close> shows of a struct field: its kind with the value, and for a struct
  its type name and its fields, each with the value of the \<^verbatim>\<open>json\<close> key of its tag
  (empty when the field has none).  \<^verbatim>\<open>ROther\<close> is any other kind (pointer, interface,
  channel, function, array, complex), with what \<^verbatim>\<open>IsZero\<close> says of it.
\<close>

datatype rvalue =
    RString string
  | RInt int
  | RUint nat
  | RFloat float64
  | RBool bool
  | RSlice "rvalue list option"
  | RStruct string "(string \<times> rvalue) list"
  | RMap "gomap option"
  | ROther bool

type_synonym field = "string \<times> rvalue"

text \<open>
  \<^verbatim>\<open>reflect.Value.IsZero\<close> (Go 1.22 and later, where a float is zero when it compares
  equal to 0, so both signed zeros): a slice or a map is zero when nil, a struct when
  all its fields are.
\<close>

definition float_is_zero :: "float64 \<Rightarrow> bool" where
  "float_is_zero x = (x = 0 \<or> x = 0x8000000000000000)"

fun IsZero :: "rvalue \<Rightarrow> bool" where
  "IsZero (RString s) = (s = [])"
| "IsZero (RInt i) = (i = 0)"
| "IsZero (RUint n) = (n = 0)"
| "IsZero (RFloat x) = float_is_zero x"
| "IsZero (RBool b) = (\<not> b)"
| "IsZero (RSlice xs) = (xs = None)"
| "IsZero (RStruct n fs) = list_all (\<lambda>f. IsZero (snd f)) fs"
| "IsZero (RMap m) = (m = None)"
| "IsZero (ROther z) = z"

text \<open>
  The library calls whose text the encoder only passes on:
  \<^verbatim>\<open>strconv.FormatFloat(x, 'f', -1, 64)\<close>, \<^verbatim>\<open>time.Time.Format(time.RFC3339)\<close> and
  \<^verbatim>\<open>json.Marshal\<close> (\<^const>\<open>None\<close> when it returns an error); and the float64 that
  \<^verbatim>\<open>json.Unmarshal\<close> reads back from the decimal text of an integer.
\<close>

record stdlib =
  FormatFloat :: "float64 \<Rightarrow> string"
  FormatTime :: "rvalue \<Rightarrow> string"
  Marshal :: "rvalue \<Rightarrow> string option"
  Float64_of_int :: "int \<Rightarrow> float64"

text \<open>The inner switch: what one slice element appends to \<^verbatim>\<open>items\<close>.\<close>

fun slice_item :: "stdlib \<Rightarrow> rvalue \<Rightarrow> string list" where
  "slice_item lib (RString s) = [s]"
| "slice_item lib (RInt i) = [FormatInt i]"
| "slice_item lib (RUint n) = [FormatUint n]"
| "slice_item lib (RFloat x) = [FormatFloat lib x]"
| "slice_item lib (RBool b) = [FormatBool b]"
| "slice_item lib v = []"

definition marshal_or_empty :: "stdlib \<Rightarrow> rvalue \<Rightarrow> string" where
  "marshal_or_empty lib v = (case Marshal lib v of Some jsonData \<Rightarrow> jsonData | None \<Rightarrow> [])"

text \<open>
  The outer switch: the string of a field, or \<^const>\<open>None\<close> where the loop says
  \<^verbatim>\<open>continue\<close>.
\<close>

fun strValue :: "stdlib \<Rightarrow> rvalue \<Rightarrow> string option" where
  "strValue lib (RString s) = Some s"
| "strValue lib (RInt i) = Some (FormatInt i)"
| "strValue lib (RUint n) = Some (FormatUint n)"
| "strValue lib (RFloat x) = Some (FormatFloat lib x)"
| "strValue lib (RBool b) = Some (FormatBool b)"
| "strValue lib (RSlice xs) =
     (case xs of None \<Rightarrow> None
      | Some items \<Rightarrow>
          if length items = 0 then None
          else Some (Join (concat (map (slice_item lib) items)) '',''))"
| "strValue lib (RStruct n fs) =
     (if n = ''time.Time'' then Some (FormatTime lib (RStruct n fs))
      else Some (marshal_or_empty lib (RStruct n fs)))"
| "strValue lib (RMap m) =
     (case m of None \<Rightarrow> None
      | Some entries \<Rightarrow>
          if length entries = 0 then None else Some (marshal_or_empty lib (RMap m)))"
| "strValue lib (ROther z) = None"

text \<open>
  One turn of the loop over the fields: the pair handed to \<^verbatim>\<open>values.Add\<close>, if any.
  The key is the tag as \<^verbatim>\<open>field.Tag.Get("json")\<close> returns it.
\<close>

definition field_param :: "stdlib \<Rightarrow> field \<Rightarrow> (string \<times> string) list" where
  "field_param lib f =
     (let tag = fst f; v = snd f in
      if IsZero v then []
      else if tag = '''' \<or> tag = ''-'' then []
      else (case strValue lib v of None \<Rightarrow> [] | Some s \<Rightarrow> [(tag, s)]))"

definition query_values :: "stdlib \<Rightarrow> field list \<Rightarrow> Values" where
  "query_values lib fs = concat (map (field_param lib) fs)"

definition structToQuery :: "stdlib \<Rightarrow> field list \<Rightarrow> string" where
  "structToQuery lib fs = Encode (query_values lib fs)"

text \<open>The fields of the three options types, in the order of their declaration.\<close>

definition Message_value :: "Message \<Rightarrow> rvalue" where
  "Message_value m =
     RStruct ''types.Message'' [(''role'', RString (Role m)), (''content'', RString (Content m))]"

definition CustomCategory_value :: "CustomCategory \<Rightarrow> rvalue" where
  "CustomCategory_value c =
     RStruct ''types.CustomCategory''
       [(''category_name'', RString (CategoryName c)),
        (''category_description'', RString (CategoryDescription c))]"

definition strings_value :: "string list option \<Rightarrow> rvalue" where
  "strings_value xs = RSlice (map_option (map RString) xs)"

definition MemoryOptions_fields :: "MemoryOptions \<Rightarrow> field list" where
  "MemoryOptions_fields opts =
     [(''api_version,omitempty'', RString (APIVersion opts)),
      (''version,omitempty'', RString (MemoryOptions.Version opts)),
      (''user_id,omitempty'', RString (UserID opts)),
      (''agent_id,omitempty'', RString (AgentID opts)),
      (''app_id,omitempty'', RString (AppID opts)),
      (''run_id,omitempty'', RString (RunID opts)),
      (''timestamp,omitempty'', RInt (Timestamp opts)),
      (''metadata,omitempty'', RMap (Metadata opts)),
      (''filters,omitempty'', RMap (Filters opts)),
      (''org_name,omitempty'', RString (OrgName opts)),
      (''project_name,omitempty'', RString (ProjectName opts)),
      (''org_id,omitempty'', RString (OrgID opts)),
      (''project_id,omitempty'', RString (ProjectID opts)),
      (''infer,omitempty'', RBool (Infer opts)),
      (''page,omitempty'', RInt (Page opts)),
      (''page_size,omitempty'', RInt (PageSize opts)),
      (''includes,omitempty'', RString (Includes opts)),
      (''excludes,omitempty'', RString (Excludes opts)),
      (''enable_graph,omitempty'', RBool (MemoryOptions.EnableGraph opts)),
      (''start_date,omitempty'', RString (StartDate opts)),
      (''end_date,omitempty'', RString (EndDate opts)),
      (''custom_categories,omitempty'',
         RSlice (map_option (map CustomCategory_value) (CustomCategories opts))),
      (''custom_instructions,omitempty'', RString (CustomInstructions opts)),
      (''messages,omitempty'', RSlice (map_option (map Message_value) (Messages opts)))]"

definition SearchOptions_direct_fields :: "SearchOptions \<Rightarrow> field list" where
  "SearchOptions_direct_fields s =
     [(''enable_graph,omitempty'', RBool (SearchOptions.EnableGraph s)),
      (''threshold,omitempty'', RFloat (Threshold s)),
      (''top_k,omitempty'', RInt (TopK s)),
      (''only_metadata_based_search,omitempty'', RBool (OnlyMetadataBasedSearch s)),
      (''keyword_search,omitempty'', RBool (KeywordSearch s)),
      (''fields,omitempty'', strings_value (SearchOptions.Fields s)),
      (''categories,omitempty'', strings_value (Categories s)),
      (''rerank,omitempty'', RBool (Rerank s)),
      (''version,omitempty'', RString (SearchOptions.Version s))]"

text \<open>The embedded \<^verbatim>\<open>MemoryOptions\<close> is the first field; it has no tag.\<close>

definition SearchOptions_fields :: "SearchOptions \<Rightarrow> field list" where
  "SearchOptions_fields s =
     ('''', RStruct ''types.MemoryOptions'' (MemoryOptions_fields (MemoryOptions s)))
       # SearchOptions_direct_fields s"

definition ProjectOptions_fields :: "ProjectOptions \<Rightarrow> field list" where
  "ProjectOptions_fields p = [(''fields,omitempty'', strings_value (ProjectOptions.Fields p))]"

definition MemoryOptions_ToQuery :: "stdlib \<Rightarrow> MemoryOptions \<Rightarrow> string" where
  "MemoryOptions_ToQuery lib opts = structToQuery lib (MemoryOptions_fields opts)"

definition SearchOptions_ToQuery :: "stdlib \<Rightarrow> SearchOptions \<Rightarrow> string" where
  "SearchOptions_ToQuery lib s = structToQuery lib (SearchOptions_fields s)"

definition ProjectOptions_ToQuery :: "stdlib \<Rightarrow> ProjectOptions \<Rightarrow> string" where
  "ProjectOptions_ToQuery lib p = structToQuery lib (ProjectOptions_fields p)"

section \<open>client: errors, the client and the transport\<close>

text \<open>
  An error value is built by \<^verbatim>\<open>errors.New\<close>, is an \<^verbatim>\<open>*APIError\<close>, is another error
  wrapped by \<^verbatim>\<open>errors.Wrap\<close>, or comes out of a library call (net/http,
  encoding/json).  \<^verbatim>\<open>Panic\<close> is a failed type assertion.
\<close>

datatype error =
    ErrorsNew string
  | APIError string
  | Wrap error string
  | LibraryError string
  | Panic string

record ClientOptions =
  APIKey :: string
  Host :: string
  OrganizationName :: string
  ProjectName :: string
  OrganizationID :: string
  ProjectID :: string

record MemoryClient =
  apiKey :: string
  host :: string
  organizationName :: string
  projectName :: string
  organizationID :: string
  projectID :: string
  telemetryID :: string

text \<open>The request struct local to \<^verbatim>\<open>GetAll\<close>.\<close>

record getAllRequest =
  Page :: int
  PageSize :: int
  OrgID :: string
  ProjectID :: string
  Fields :: "string list option"
  Filters :: "gomap option"

text \<open>
  The value handed to \<^verbatim>\<open>doRequest\<close> as the body: a map, the request struct of
  \<^verbatim>\<open>GetAll\<close>, or a payload struct or slice of the caller's, which the client passes on
  untouched and which is kept in its JSON view.
\<close>

datatype reqbody = BodyMap gomap | BodyGetAll getAllRequest | BodyValue any

record Request =
  Method :: string
  URL :: string
  Header :: "(string \<times> string) list"
  Body :: "reqbody option"

text \<open>A response: the status code and the bytes \<^verbatim>\<open>io.ReadAll\<close> returns.\<close>

record Response =
  StatusCode :: int
  ResponseBody :: string

text \<open>
  The transport: \<^verbatim>\<open>http.NewRequest\<close> may reject the method or the URL, and
  \<^verbatim>\<open>client.Do\<close> answers a request with an error or a response.
\<close>

record transport =
  NewRequest :: "string \<Rightarrow> string \<Rightarrow> error option"
  Do :: "Request \<Rightarrow> error + Response"

text \<open>
  A call of the client returns the requests it handed to \<^verbatim>\<open>client.Do\<close>, in order, and
  its result.
\<close>

type_synonym 'a call = "Request list \<times> (error + 'a)"

section \<open>client: construction\<close>

definition validateOrgProject :: "MemoryClient \<Rightarrow> error option" where
  "validateOrgProject c =
     (if (organizationName c = '''' \<and> projectName c \<noteq> '''')
          \<or> (organizationName c \<noteq> '''' \<and> projectName c = '''')
      then Some (ErrorsNew ''both organizationName and projectName must be provided together'')
      else if (organizationID c = '''' \<and> projectID c \<noteq> '''')
          \<or> (organizationID c \<noteq> '''' \<and> projectID c = '''')
      then Some (ErrorsNew ''both organizationID and projectID must be provided together'')
      else None)"

text \<open>The message of every \<^verbatim>\<open>APIError\<close> built from a response.\<close>

definition request_failed :: "Response \<Rightarrow> error" where
  "request_failed resp =
     APIError (''API request failed with status '' @ FormatInt (StatusCode resp) @ '': ''
       @ ResponseBody resp)"

record ping_data =
  ping_Status :: string
  ping_OrgID :: string
  ping_ProjectID :: string
  ping_UserEmail :: string

text \<open>
  \<^verbatim>\<open>ping\<close>; \<open>unmarshal\<close> is \<^verbatim>\<open>json.Unmarshal\<close> into the local struct.  On success the
  client carries the identifiers of the response.
\<close>

definition ping ::
  "MemoryClient \<Rightarrow> transport \<Rightarrow> (string \<Rightarrow> error + ping_data) \<Rightarrow> MemoryClient call" where
  "ping c net unmarshal =
     (let url = host c @ ''/v1/ping/'' in
      case NewRequest net ''GET'' url of
        Some err \<Rightarrow> ([], Inl err)
      | None \<Rightarrow>
          let req = \<lparr>Method = ''GET'', URL = url,
                     Header = [(''Authorization'', ''Token '' @ apiKey c)], Body = None\<rparr> in
          (case Do net req of
             Inl err \<Rightarrow> ([req], Inl err)
           | Inr resp \<Rightarrow>
               if StatusCode resp \<noteq> 200 then ([req], Inl (request_failed resp))
               else (case unmarshal (ResponseBody resp) of
                       Inl err \<Rightarrow> ([req], Inl err)
                     | Inr data \<Rightarrow>
                         if ping_Status data \<noteq> ''ok''
                         then ([req], Inl (APIError ''API key is invalid''))
                         else ([req], Inr (c\<lparr>organizationID := ping_OrgID data,
                                               projectID := ping_ProjectID data,
                                               telemetryID := ping_UserEmail data\<rparr>)))))"

definition NewMemoryClient ::
  "ClientOptions \<Rightarrow> transport \<Rightarrow> (string \<Rightarrow> error + ping_data) \<Rightarrow> MemoryClient call" where
  "NewMemoryClient options net unmarshal =
     (if APIKey options = '''' then ([], Inl (ErrorsNew ''API key is required''))
      else
        let options1 = (if Host options = '''' then options\<lparr>Host := ''https://api.mem0.ai''\<rparr>
                        else options);
            client = \<lparr>apiKey = APIKey options1, host = Host options1,
                       organizationName = OrganizationName options1,
                       projectName = ClientOptions.ProjectName options1,
                       organizationID = OrganizationID options1,
                       projectID = ClientOptions.ProjectID options1,
                       telemetryID = ''''\<rparr>
        in (case validateOrgProject client of
              Some err \<Rightarrow> ([], Inl err)
            | None \<Rightarrow> ping client net unmarshal))"

section \<open>client: JSON views of the options\<close>

text \<open>
  \<^verbatim>\<open>json.Marshal\<close> rejects a value that holds a channel, a function, a complex number
  (all \<^const>\<open>AUnsupported\<close>) or a float that is NaN or infinite.
\<close>

definition float_finite :: "float64 \<Rightarrow> bool" where
  "float_finite x = (take_bit 11 (drop_bit 52 x) \<noteq> (2047 :: float64))"

fun marshalable :: "any \<Rightarrow> bool" where
  "marshalable ANil = True"
| "marshalable (ABool b) = True"
| "marshalable (AString s) = True"
| "marshalable (AInt i) = True"
| "marshalable (AFloat x) = float_finite x"
| "marshalable (ASlice xs) = list_all marshalable xs"
| "marshalable (AMap entries) = list_all (\<lambda>kv. marshalable (snd kv)) entries"
| "marshalable (AMessages ms) = True"
| "marshalable AUnsupported = False"

definition Message_json :: "Message \<Rightarrow> any" where
  "Message_json m = AMap [(''role'', AString (Role m)), (''content'', AString (Content m))]"

text \<open>
  What \<^verbatim>\<open>json.Unmarshal\<close> into a \<^verbatim>\<open>map[string]interface{}\<close> gives back for a value that
  was marshalled: every number is a float64, a struct is a map.  (Strings are taken to
  be valid UTF-8, which the round trip keeps.)
\<close>

fun decoded :: "stdlib \<Rightarrow> any \<Rightarrow> any" where
  "decoded lib ANil = ANil"
| "decoded lib (ABool b) = ABool b"
| "decoded lib (AString s) = AString s"
| "decoded lib (AInt i) = AFloat (Float64_of_int lib i)"
| "decoded lib (AFloat x) = AFloat x"
| "decoded lib (ASlice xs) = ASlice (map (decoded lib) xs)"
| "decoded lib (AMap entries) = AMap (map (\<lambda>kv. (fst kv, decoded lib (snd kv))) entries)"
| "decoded lib (AMessages ms) = ASlice (map Message_json ms)"
| "decoded lib AUnsupported = AUnsupported"

text \<open>
  The entry of one field tagged \<^verbatim>\<open>omitempty\<close> in the decoded object: none when the
  field is empty (\<^verbatim>\<open>false\<close>, 0, the empty string, a nil or empty slice or map).
\<close>

definition json_string :: "string \<Rightarrow> string \<Rightarrow> gomap" where
  "json_string name s = (if s = '''' then [] else [(name, AString s)])"

definition json_int :: "stdlib \<Rightarrow> string \<Rightarrow> int \<Rightarrow> gomap" where
  "json_int lib name i = (if i = 0 then [] else [(name, AFloat (Float64_of_int lib i))])"

definition json_float :: "string \<Rightarrow> float64 \<Rightarrow> gomap" where
  "json_float name x = (if float_is_zero x then [] else [(name, AFloat x)])"

definition json_bool :: "string \<Rightarrow> bool \<Rightarrow> gomap" where
  "json_bool name b = (if b then [(name, ABool True)] else [])"

definition json_map :: "stdlib \<Rightarrow> string \<Rightarrow> gomap option \<Rightarrow> gomap" where
  "json_map lib name m =
     (case m of None \<Rightarrow> []
      | Some entries \<Rightarrow> if entries = [] then [] else [(name, decoded lib (AMap entries))])"

definition json_strings :: "string \<Rightarrow> string list option \<Rightarrow> gomap" where
  "json_strings name xs =
     (case xs of None \<Rightarrow> []
      | Some items \<Rightarrow> if items = [] then [] else [(name, ASlice (map AString items))])"

definition json_messages :: "string \<Rightarrow> Message list option \<Rightarrow> gomap" where
  "json_messages name ms =
     (case ms of None \<Rightarrow> []
      | Some items \<Rightarrow> if items = [] then [] else [(name, ASlice (map Message_json items))])"

text \<open>\<^verbatim>\<open>CustomCategories.MarshalJSON\<close>: one single-entry map per category.\<close>

definition CustomCategory_json :: "CustomCategory \<Rightarrow> any" where
  "CustomCategory_json c = AMap [(CategoryName c, AString (CategoryDescription c))]"

definition json_categories :: "string \<Rightarrow> CustomCategory list option \<Rightarrow> gomap" where
  "json_categories name cs =
     (case cs of None \<Rightarrow> []
      | Some items \<Rightarrow> if items = [] then [] else [(name, ASlice (map CustomCategory_json items))])"

definition map_marshalable :: "gomap option \<Rightarrow> bool" where
  "map_marshalable m = (case m of None \<Rightarrow> True | Some entries \<Rightarrow> marshalable (AMap entries))"

text \<open>
  The entries of a \<^verbatim>\<open>MemoryOptions\<close>, all tagged \<^verbatim>\<open>omitempty\<close>; \<open>shadowed\<close> drops the
  two names that a field of \<^verbatim>\<open>SearchOptions\<close> itself takes when the struct is embedded
  there (the less nested field wins).
\<close>

definition MemoryOptions_entries :: "stdlib \<Rightarrow> bool \<Rightarrow> MemoryOptions \<Rightarrow> gomap" where
  "MemoryOptions_entries lib shadowed opts =
     json_string ''api_version'' (APIVersion opts)
     @ (if shadowed then [] else json_string ''version'' (MemoryOptions.Version opts))
     @ json_string ''user_id'' (UserID opts)
     @ json_string ''agent_id'' (AgentID opts)
     @ json_string ''app_id'' (AppID opts)
     @ json_string ''run_id'' (RunID opts)
     @ json_int lib ''timestamp'' (Timestamp opts)
     @ json_map lib ''metadata'' (Metadata opts)
     @ json_map lib ''filters'' (MemoryOptions.Filters opts)
     @ json_string ''org_name'' (OrgName opts)
     @ json_string ''project_name'' (MemoryOptions.ProjectName opts)
     @ json_string ''org_id'' (MemoryOptions.OrgID opts)
     @ json_string ''project_id'' (MemoryOptions.ProjectID opts)
     @ json_bool ''infer'' (Infer opts)
     @ json_int lib ''page'' (MemoryOptions.Page opts)
     @ json_int lib ''page_size'' (MemoryOptions.PageSize opts)
     @ json_string ''includes'' (Includes opts)
     @ json_string ''excludes'' (Excludes opts)
     @ (if shadowed then [] else json_bool ''enable_graph'' (MemoryOptions.EnableGraph opts))
     @ json_string ''start_date'' (StartDate opts)
     @ json_string ''end_date'' (EndDate opts)
     @ json_categories ''custom_categories'' (CustomCategories opts)
     @ json_string ''custom_instructions'' (CustomInstructions opts)
     @ json_messages ''messages'' (Messages opts)"

text \<open>
  \<^verbatim>\<open>json.Marshal(options)\<close> followed by \<^verbatim>\<open>json.Unmarshal\<close> into \<^verbatim>\<open>optionsMap\<close>.  Only the
  two maps of arbitrary values can make the encoder fail.
\<close>

definition json_error :: error where
  "json_error = LibraryError ''json: unsupported value''"

definition MemoryOptions_optionsMap :: "stdlib \<Rightarrow> MemoryOptions \<Rightarrow> error + gomap" where
  "MemoryOptions_optionsMap lib opts =
     (if map_marshalable (Metadata opts) \<and> map_marshalable (MemoryOptions.Filters opts)
      then Inr (MemoryOptions_entries lib False opts)
      else Inl json_error)"

definition SearchOptions_optionsMap :: "stdlib \<Rightarrow> SearchOptions \<Rightarrow> error + gomap" where
  "SearchOptions_optionsMap lib s =
     (if map_marshalable (Metadata (MemoryOptions s))
         \<and> map_marshalable (MemoryOptions.Filters (MemoryOptions s))
         \<and> float_finite (Threshold s)
      then Inr (MemoryOptions_entries lib True (MemoryOptions s)
                @ json_bool ''enable_graph'' (SearchOptions.EnableGraph s)
                @ json_float ''threshold'' (Threshold s)
                @ json_int lib ''top_k'' (TopK s)
                @ json_bool ''only_metadata_based_search'' (OnlyMetadataBasedSearch s)
                @ json_bool ''keyword_search'' (KeywordSearch s)
                @ json_strings ''fields'' (SearchOptions.Fields s)
                @ json_strings ''categories'' (Categories s)
                @ json_bool ''rerank'' (Rerank s)
                @ json_string ''version'' (SearchOptions.Version s))
      else Inl json_error)"

text \<open>The loop that copies every entry that is not nil into the payload.\<close>

definition merge :: "gomap \<Rightarrow> gomap \<Rightarrow> gomap" where
  "merge optionsMap payload =
     fold (\<lambda>kv p. if snd kv \<noteq> ANil then AList.update (fst kv) (snd kv) p else p)
       optionsMap payload"

section \<open>client: preparePayload\<close>

text \<open>
  The dynamic type of the \<^verbatim>\<open>messages\<close> argument: the four cases of the type switch, or
  any other type (nil included).
\<close>

datatype messages_arg =
    MString string
  | MStrings "string list"
  | MMessage Message
  | MMessages "Message list"
  | MOther

fun messages_list :: "messages_arg \<Rightarrow> Message list option" where
  "messages_list (MString m) = Some [\<lparr>Role = ''user'', Content = m\<rparr>]"
| "messages_list (MStrings m) = Some (map (\<lambda>msg. \<lparr>Role = ''user'', Content = msg\<rparr>) m)"
| "messages_list (MMessage m) = Some [m]"
| "messages_list (MMessages m) = Some m"
| "messages_list MOther = None"

definition with_org_project :: "MemoryClient \<Rightarrow> MemoryOptions \<Rightarrow> MemoryOptions" where
  "with_org_project c options =
     (let options1 =
            (if organizationName c \<noteq> '''' \<and> projectName c \<noteq> ''''
             then options\<lparr>OrgName := organizationName c,
                          MemoryOptions.ProjectName := projectName c\<rparr>
             else options);
          options2 =
            (if organizationID c \<noteq> '''' \<and> projectID c \<noteq> ''''
             then options1\<lparr>MemoryOptions.OrgID := organizationID c,
                           MemoryOptions.ProjectID := projectID c\<rparr>
             else options1)
      in options2)"

definition preparePayload ::
  "MemoryClient \<Rightarrow> stdlib \<Rightarrow> messages_arg \<Rightarrow> MemoryOptions \<Rightarrow> error + gomap" where
  "preparePayload c lib messages options =
     (case messages_list messages of
        None \<Rightarrow> Inl (ErrorsNew ''invalid messages type'')
      | Some msgs \<Rightarrow>
          let payload = [(''messages'', AMessages msgs)];
              options2 = with_org_project c options
          in (case MemoryOptions_optionsMap lib options2 of
                Inl err \<Rightarrow> Inl err
              | Inr optionsMap \<Rightarrow>
                  let payload1 = merge optionsMap payload in
                  if \<not> has_key payload1 ''messages''
                  then Inl (ErrorsNew ''messages field is required'')
                  else if IsDefault (MemoryOptions.Version options2)
                  then Inr (AList.update ''version'' (AString DefaultAPIVersion) payload1)
                  else Inr payload1))"

section \<open>client: the filter normalizer\<close>

text \<open>
  \<^verbatim>\<open>fixAPIV2Filters\<close> replaces a nil map by a fresh one, deletes \<^verbatim>\<open>agent_id\<close> and
  stores the wildcard under each of \<^verbatim>\<open>user_id\<close>, \<^verbatim>\<open>app_id\<close>, \<^verbatim>\<open>run_id\<close> that
  the comma-ok lookup does not find.  The Go code updates the caller's map in place and
  returns it; the model returns the updated map.
\<close>

definition set_default :: "string \<Rightarrow> gomap \<Rightarrow> gomap" where
  "set_default k m =
     (if has_key m k then m else AList.update k (AString SearchWildcard) m)"

definition fixAPIV2Filters :: "gomap option \<Rightarrow> gomap" where
  "fixAPIV2Filters filters =
     (let filters1 = (case filters of None \<Rightarrow> [] | Some m \<Rightarrow> m);
          filters2 = AList.delete ''agent_id'' filters1;
          filters3 = set_default ''user_id'' filters2;
          filters4 = set_default ''app_id'' filters3;
          filters5 = set_default ''run_id'' filters4
      in filters5)"

text \<open>Reading a possibly nil map: a nil map has no key.\<close>

definition lookup :: "gomap option \<Rightarrow> string \<Rightarrow> any option" where
  "lookup filters k = (case filters of None \<Rightarrow> None | Some m \<Rightarrow> map_of m k)"

section \<open>client: requests\<close>

definition body_marshalable :: "reqbody \<Rightarrow> bool" where
  "body_marshalable b =
     (case b of
        BodyMap m \<Rightarrow> marshalable (AMap m)
      | BodyGetAll r \<Rightarrow> map_marshalable (getAllRequest.Filters r)
      | BodyValue v \<Rightarrow> marshalable v)"

text \<open>The request \<^verbatim>\<open>doRequest\<close> builds, with the headers it sets.\<close>

definition new_request :: "MemoryClient \<Rightarrow> string \<Rightarrow> string \<Rightarrow> reqbody option \<Rightarrow> Request" where
  "new_request c method path body =
     \<lparr>Method = method, URL = host c @ path,
      Header = [(''Authorization'', ''Token '' @ apiKey c),
                (''Content-Type'', ''application/json'')]
        @ (if telemetryID c \<noteq> '''' then [(''Mem0-User-ID'', telemetryID c)] else []),
      Body = body\<rparr>"

definition doRequest ::
  "MemoryClient \<Rightarrow> transport \<Rightarrow> string \<Rightarrow> string \<Rightarrow> reqbody option \<Rightarrow> Response call" where
  "doRequest c net method path body =
     (if (case body of None \<Rightarrow> False | Some b \<Rightarrow> \<not> body_marshalable b)
      then ([], Inl json_error)
      else (case NewRequest net method (host c @ path) of
              Some err \<Rightarrow> ([], Inl err)
            | None \<Rightarrow>
                let req = new_request c method path body in ([req], Do net req)))"

text \<open>
  What every operation does with the response: a status other than 200 is an
  \<^verbatim>\<open>APIError\<close>; otherwise the body is decoded (\<open>unmarshal\<close> is \<^verbatim>\<open>json.Unmarshal\<close>
  into the result type) or, for the operations that return only an error, dropped.
\<close>

definition decode_response :: "(string \<Rightarrow> error + 'a) \<Rightarrow> Response \<Rightarrow> error + 'a" where
  "decode_response unmarshal resp =
     (if StatusCode resp \<noteq> 200 then Inl (request_failed resp)
      else (case unmarshal (ResponseBody resp) of
              Inl err \<Rightarrow> Inl (Wrap err ''failed to unmarshal response'')
            | Inr v \<Rightarrow> Inr v))"

definition check_response :: "Response \<Rightarrow> error + unit" where
  "check_response resp =
     (if StatusCode resp \<noteq> 200 then Inl (request_failed resp) else Inr ())"

definition answered :: "Response call \<Rightarrow> (Response \<Rightarrow> error + 'a) \<Rightarrow> 'a call" where
  "answered sent handle =
     (fst sent, case snd sent of Inl err \<Rightarrow> Inl err | Inr resp \<Rightarrow> handle resp)"

section \<open>client: the operations\<close>

definition AddAsync ::
  "MemoryClient \<Rightarrow> transport \<Rightarrow> stdlib \<Rightarrow> (string \<Rightarrow> error + 'a) \<Rightarrow> messages_arg
     \<Rightarrow> MemoryOptions \<Rightarrow> 'a call" where
  "AddAsync c net lib unmarshal messages options =
     (case preparePayload c lib messages options of
        Inl err \<Rightarrow> ([], Inl err)
      | Inr payload \<Rightarrow>
          answered (doRequest c net ''POST'' ''/v1/memories/'' (Some (BodyMap payload)))
            (decode_response unmarshal))"

definition Add ::
  "MemoryClient \<Rightarrow> transport \<Rightarrow> stdlib \<Rightarrow> (string \<Rightarrow> error + 'a) \<Rightarrow> messages_arg
     \<Rightarrow> MemoryOptions \<Rightarrow> 'a call" where
  "Add c net lib unmarshal messages options =
     (case preparePayload c lib messages options of
        Inl err \<Rightarrow> ([], Inl err)
      | Inr payload \<Rightarrow>
          let payload1 = AList.update ''async_mode'' (ABool False) payload in
          answered (doRequest c net ''POST'' ''/v1/memories/'' (Some (BodyMap payload1)))
            (decode_response unmarshal))"

definition Update ::
  "MemoryClient \<Rightarrow> transport \<Rightarrow> (string \<Rightarrow> error + 'a) \<Rightarrow> string \<Rightarrow> string \<Rightarrow> 'a call" where
  "Update c net unmarshal memoryID message =
     answered (doRequest c net ''PUT'' (''/v1/memories/'' @ memoryID @ ''/'')
                 (Some (BodyMap [(''text'', AString message)])))
       (decode_response unmarshal)"

definition Get ::
  "MemoryClient \<Rightarrow> transport \<Rightarrow> (string \<Rightarrow> error + 'a) \<Rightarrow> string \<Rightarrow> 'a call" where
  "Get c net unmarshal memoryID =
     answered (doRequest c net ''GET'' (''/v1/memories/'' @ memoryID @ ''/'') None)
       (decode_response unmarshal)"

text \<open>
  \<^verbatim>\<open>GetAll\<close>: the request struct stays zero when \<open>options\<close> is nil; otherwise a nil
  filter map becomes an empty one, and the filters are normalized when the version of
  the options is the default.
\<close>

definition getAllRequest_zero :: getAllRequest where
  "getAllRequest_zero =
     \<lparr>getAllRequest.Page = 0, getAllRequest.PageSize = 0, getAllRequest.OrgID = '''',
      getAllRequest.ProjectID = '''', getAllRequest.Fields = None,
      getAllRequest.Filters = None\<rparr>"

definition GetAll_request :: "MemoryClient \<Rightarrow> SearchOptions option \<Rightarrow> getAllRequest" where
  "GetAll_request c options =
     (case options of
        None \<Rightarrow> getAllRequest_zero
      | Some opts \<Rightarrow>
          let req = \<lparr>getAllRequest.Page = MemoryOptions.Page (MemoryOptions opts),
                     getAllRequest.PageSize = MemoryOptions.PageSize (MemoryOptions opts),
                     getAllRequest.OrgID = MemoryOptions.OrgID (MemoryOptions opts),
                     getAllRequest.ProjectID = MemoryOptions.ProjectID (MemoryOptions opts),
                     getAllRequest.Fields = SearchOptions.Fields opts,
                     getAllRequest.Filters = MemoryOptions.Filters (MemoryOptions opts)\<rparr>;
              req1 = (if getAllRequest.OrgID req = ''''
                      then req\<lparr>getAllRequest.OrgID := organizationID c\<rparr> else req);
              req2 = (if getAllRequest.ProjectID req1 = ''''
                      then req1\<lparr>getAllRequest.ProjectID := projectID c\<rparr> else req1);
              req3 = (if getAllRequest.Filters req2 = None
                      then req2\<lparr>getAllRequest.Filters := Some []\<rparr> else req2);
              req4 = (if IsDefault (SearchOptions.Version opts)
                      then req3\<lparr>getAllRequest.Filters :=
                                   Some (fixAPIV2Filters (getAllRequest.Filters req3))\<rparr>
                      else req3)
          in req4)"

definition GetAll ::
  "MemoryClient \<Rightarrow> transport \<Rightarrow> (string \<Rightarrow> error + 'a) \<Rightarrow> SearchOptions option \<Rightarrow> 'a call" where
  "GetAll c net unmarshal options =
     answered (doRequest c net ''POST'' ''/v2/memories/''
                 (Some (BodyGetAll (GetAll_request c options))))
       (decode_response unmarshal)"

text \<open>
  \<^verbatim>\<open>Search\<close>: the payload starts with the query, takes every entry of the decoded
  options, and has its \<^verbatim>\<open>filters\<close> entry, when there is one, normalized when the version
  of the options is the default.
\<close>

definition Search_payload ::
  "MemoryClient \<Rightarrow> stdlib \<Rightarrow> string \<Rightarrow> SearchOptions option \<Rightarrow> error + gomap" where
  "Search_payload c lib query options =
     (let options0 = (case options of None \<Rightarrow> SearchOptions_zero | Some opts \<Rightarrow> opts);
          options2 = options0\<lparr>MemoryOptions := with_org_project c (MemoryOptions options0)\<rparr>;
          payload = [(''query'', AString query)]
      in (case SearchOptions_optionsMap lib options2 of
            Inl err \<Rightarrow> Inl err
          | Inr optionsMap \<Rightarrow>
              let payload1 = merge optionsMap payload in
              (case map_of payload1 ''filters'' of
                 None \<Rightarrow> Inr payload1
               | Some filters \<Rightarrow>
                   if IsDefault (SearchOptions.Version options2)
                   then (case filters of
                           AMap m \<Rightarrow>
                             Inr (AList.update ''filter_memories'' (ABool True)
                                    (AList.update ''filters'' (AMap (fixAPIV2Filters (Some m)))
                                       payload1))
                         | _ \<Rightarrow> Inl (Panic ''interface conversion''))
                   else Inr payload1)))"

definition Search ::
  "MemoryClient \<Rightarrow> transport \<Rightarrow> stdlib \<Rightarrow> (string \<Rightarrow> error + 'a) \<Rightarrow> string
     \<Rightarrow> SearchOptions option \<Rightarrow> 'a call" where
  "Search c net lib unmarshal query options =
     (case Search_payload c lib query options of
        Inl err \<Rightarrow> ([], Inl err)
      | Inr payload \<Rightarrow>
          answered (doRequest c net ''POST'' ''/v2/memories/search/'' (Some (BodyMap payload)))
            (decode_response unmarshal))"

definition Delete :: "MemoryClient \<Rightarrow> transport \<Rightarrow> string \<Rightarrow> unit call" where
  "Delete c net memoryID =
     answered (doRequest c net ''DELETE'' (''/v1/memories/'' @ memoryID @ ''/'') None)
       check_response"

definition DeleteAll :: "MemoryClient \<Rightarrow> transport \<Rightarrow> stdlib \<Rightarrow> MemoryOptions \<Rightarrow> unit call" where
  "DeleteAll c net lib options =
     (let query = MemoryOptions_ToQuery lib options;
          path = (if query \<noteq> '''' then ''/v1/memories/'' @ ''?'' @ query else ''/v1/memories/'')
      in answered (doRequest c net ''DELETE'' path None) check_response)"

definition History ::
  "MemoryClient \<Rightarrow> transport \<Rightarrow> (string \<Rightarrow> error + 'a) \<Rightarrow> string \<Rightarrow> 'a call" where
  "History c net unmarshal memoryID =
     answered (doRequest c net ''GET'' (''/v1/memories/'' @ memoryID @ ''/history/'') None)
       (decode_response unmarshal)"

definition Users :: "MemoryClient \<Rightarrow> transport \<Rightarrow> (string \<Rightarrow> error + 'a) \<Rightarrow> 'a call" where
  "Users c net unmarshal =
     answered (doRequest c net ''GET'' ''/v1/users/'' None) (decode_response unmarshal)"

definition DeleteUser :: "MemoryClient \<Rightarrow> transport \<Rightarrow> string \<Rightarrow> unit call" where
  "DeleteUser c net entityID =
     answered (doRequest c net ''DELETE'' (''/v1/users/'' @ entityID @ ''/'') None)
       check_response"

definition DeleteUsers :: "MemoryClient \<Rightarrow> transport \<Rightarrow> unit call" where
  "DeleteUsers c net = answered (doRequest c net ''DELETE'' ''/v1/users/'' None) check_response"

definition BatchUpdate :: "MemoryClient \<Rightarrow> transport \<Rightarrow> any \<Rightarrow> unit call" where
  "BatchUpdate c net memories =
     answered (doRequest c net ''PUT'' ''/v1/memories/batch/'' (Some (BodyValue memories)))
       check_response"

definition BatchDelete :: "MemoryClient \<Rightarrow> transport \<Rightarrow> string list \<Rightarrow> unit call" where
  "BatchDelete c net memoryIDs =
     answered (doRequest c net ''DELETE'' ''/v1/memories/batch/''
                 (Some (BodyValue (ASlice (map AString memoryIDs)))))
       check_response"

definition GetProject ::
  "MemoryClient \<Rightarrow> transport \<Rightarrow> stdlib \<Rightarrow> (string \<Rightarrow> error + 'a) \<Rightarrow> ProjectOptions
     \<Rightarrow> 'a call" where
  "GetProject c net lib unmarshal options =
     (let query = ProjectOptions_ToQuery lib options;
          path = (if query \<noteq> '''' then ''/v1/project/'' @ ''?'' @ query else ''/v1/project/'')
      in answered (doRequest c net ''GET'' path None) (decode_response unmarshal))"

definition UpdateProject :: "MemoryClient \<Rightarrow> transport \<Rightarrow> any \<Rightarrow> unit call" where
  "UpdateProject c net payload =
     answered (doRequest c net ''PUT'' ''/v1/project/'' (Some (BodyValue payload)))
       check_response"

definition GetWebhooks ::
  "MemoryClient \<Rightarrow> transport \<Rightarrow> (string \<Rightarrow> error + 'a) \<Rightarrow> string \<Rightarrow> 'a call" where
  "GetWebhooks c net unmarshal project =
     (let path = (if project \<noteq> '''' then ''/v1/webhooks/'' @ ''?project_id='' @ project
                  else ''/v1/webhooks/'')
      in answered (doRequest c net ''GET'' path None) (decode_response unmarshal))"

definition CreateWebhook ::
  "MemoryClient \<Rightarrow> transport \<Rightarrow> (string \<Rightarrow> error + 'a) \<Rightarrow> any \<Rightarrow> 'a call" where
  "CreateWebhook c net unmarshal webhook =
     answered (doRequest c net ''POST'' ''/v1/webhooks/'' (Some (BodyValue webhook)))
       (decode_response unmarshal)"

definition UpdateWebhook :: "MemoryClient \<Rightarrow> transport \<Rightarrow> any \<Rightarrow> unit call" where
  "UpdateWebhook c net webhook =
     answered (doRequest c net ''PUT'' ''/v1/webhooks/'' (Some (BodyValue webhook)))
       check_response"

definition DeleteWebhook :: "MemoryClient \<Rightarrow> transport \<Rightarrow> string \<Rightarrow> unit call" where
  "DeleteWebhook c net webhookID =
     answered (doRequest c net ''DELETE'' (''/v1/webhooks/'' @ webhookID @ ''/'') None)
       check_response"

definition Feedback :: "MemoryClient \<Rightarrow> transport \<Rightarrow> any \<Rightarrow> unit call" where
  "Feedback c net payload =
     answered (doRequest c net ''POST'' ''/v1/feedback/'' (Some (BodyValue payload)))
       check_response"

definition GetEvent ::
  "MemoryClient \<Rightarrow> transport \<Rightarrow> (string \<Rightarrow> error + 'a) \<Rightarrow> string \<Rightarrow> 'a call" where
  "GetEvent c net unmarshal eventID =
     answered (doRequest c net ''GET'' (''/v1/event/'' @ eventID @ ''/'') None)
       (decode_response unmarshal)"

text \<open>\<^verbatim>\<open>GetEvents\<close> wraps the error of \<^verbatim>\<open>doRequest\<close>.\<close>

definition GetEvents ::
  "MemoryClient \<Rightarrow> transport \<Rightarrow> (string \<Rightarrow> error + 'a) \<Rightarrow> string \<Rightarrow> 'a call" where
  "GetEvents c net unmarshal cursor =
     (let path = (if cursor \<noteq> '''' then cursor else ''/v1/events/'');
          sent = doRequest c net ''GET'' path None
      in (fst sent,
          case snd sent of
            Inl err \<Rightarrow> Inl (Wrap err ''failed to get events'')
          | Inr resp \<Rightarrow> decode_response unmarshal resp))"

text \<open>A transport that accepts every request and answers it with the given response.\<close>

definition answering :: "Response \<Rightarrow> transport" where
  "answering resp = \<lparr>NewRequest = (\<lambda>method url. None), Do = (\<lambda>req. Inr resp)\<rparr>"

text \<open>The client that \<^verbatim>\<open>NewMemoryClient\<close> builds from its options before it validates it.\<close>

definition client_of :: "ClientOptions \<Rightarrow> MemoryClient" where
  "client_of options =
     \<lparr>apiKey = APIKey options,
      host = (if Host options = '''' then ''https://api.mem0.ai'' else Host options),
      organizationName = OrganizationName options,
      projectName = ClientOptions.ProjectName options,
      organizationID = OrganizationID options,
      projectID = ClientOptions.ProjectID options,
      telemetryID = ''''\<rparr>"

text \<open>A transport that is down, and a decoder that rejects every body.\<close>

definition unreachable :: transport where
  "unreachable =
     \<lparr>NewRequest = (\<lambda>method url. None), Do = (\<lambda>req. Inl (LibraryError ''connection refused''))\<rparr>"

definition undecodable :: "string \<Rightarrow> error + 'a" where
  "undecodable body = Inl (LibraryError ''unexpected end of JSON input'')"

text \<open>The client of the unit tests: the key \<^verbatim>\<open>test-key\<close> and nothing else.\<close>

definition test_client :: MemoryClient where
  "test_client =
     client_of \<lparr>APIKey = ''test-key'', Host = '''', OrganizationName = '''',
                ClientOptions.ProjectName = '''', OrganizationID = '''',
                ClientOptions.ProjectID = ''''\<rparr>"

text \<open>A library whose texts are fixed, for running the model where they do not matter.\<close>

definition plain_lib :: stdlib where
  "plain_lib =
     \<lparr>FormatFloat = (\<lambda>x. ''1''), FormatTime = (\<lambda>v. ''0001-01-01T00:00:00Z''),
      Marshal = (\<lambda>v. Some ''{}''), Float64_of_int = (\<lambda>i. 0)\<rparr>"

text \<open>
  The transport turns a request down when it accepts it and answers it with a status
  other than 200.
\<close>

definition turned_down :: "transport \<Rightarrow> Request \<Rightarrow> Response \<Rightarrow> bool" where
  "turned_down net req resp =
     (NewRequest net (Method req) (URL req) = None \<and> Do net req = Inr resp
      \<and> StatusCode resp \<noteq> 200)"

text \<open>The float64 read back from the text of an integer is a number.\<close>

definition finite_floats :: "stdlib \<Rightarrow> bool" where
  "finite_floats lib = (\<forall>i. float_finite (Float64_of_int lib i))"

text \<open>The outcome of a call whose one request was turned down with the given response.\<close>

definition refused :: "Request \<Rightarrow> Response \<Rightarrow> 'a call" where
  "refused req resp = ([req], Inl (request_failed resp))"

section \<open>Notions of the specification\<close>

text \<open>
  The wire name of a field: the name part of its \<^verbatim>\<open>json\<close> tag, up to the first comma,
  without the tag options.
\<close>

definition wire_name :: "string \<Rightarrow> string" where
  "wire_name tag = takeWhile (\<lambda>c. c \<noteq> CHR '','') tag"

text \<open>
  A field that is unset, in the words of the specification: the empty string, a zero
  number, false, an empty or nil collection, a zero timestamp (a struct is zero when
  all its fields are).
\<close>

definition zero_value :: "rvalue \<Rightarrow> bool" where
  "zero_value v =
     (case v of
        RString s \<Rightarrow> s = ''''
      | RInt i \<Rightarrow> i = 0
      | RUint n \<Rightarrow> n = 0
      | RFloat x \<Rightarrow> x = 0
      | RBool b \<Rightarrow> \<not> b
      | RSlice xs \<Rightarrow> xs = None \<or> xs = Some []
      | RMap m \<Rightarrow> m = None \<or> m = Some []
      | RStruct n fs \<Rightarrow> IsZero (RStruct n fs)
      | ROther z \<Rightarrow> z)"

section \<open>Properties of the filter normalizer\<close>

lemma map_of_set_default:
  "map_of (set_default k m) =
     (case map_of m k of None \<Rightarrow> (map_of m)(k \<mapsto> AString SearchWildcard) | Some v \<Rightarrow> map_of m)"
  by (simp add: set_default_def has_key_def update_conv' split: option.splits)

lemma distinct_set_default:
  "distinct (map fst m) \<Longrightarrow> distinct (map fst (set_default k m))"
  by (simp add: set_default_def distinct_update)

lemma map_of_fixAPIV2Filters:
  "map_of (fixAPIV2Filters filters) k =
     (if k = ''agent_id'' then None
      else if k = ''user_id'' \<or> k = ''app_id'' \<or> k = ''run_id''
      then (case lookup filters k of None \<Rightarrow> Some (AString SearchWildcard) | Some v \<Rightarrow> Some v)
      else lookup filters k)"
  by (cases filters)
    (auto simp: fixAPIV2Filters_def Let_def lookup_def map_of_set_default delete_conv'
      split: option.splits)

lemma distinct_fixAPIV2Filters:
  "distinct (map fst m) \<Longrightarrow> distinct (map fst (fixAPIV2Filters (Some m)))"
  by (simp add: fixAPIV2Filters_def Let_def distinct_set_default distinct_delete)

text \<open>
  Claim C1.  For every filter map, nil included, the normalized map has no \<^verbatim>\<open>agent_id\<close>;
  it has \<^verbatim>\<open>user_id\<close>, \<^verbatim>\<open>app_id\<close> and \<^verbatim>\<open>run_id\<close>, each with the value of the input
  when the input has the key and with the wildcard \<^verbatim>\<open>*\<close> otherwise; and every other key
  is bound exactly as in the input.
\<close>

theorem fixAPIV2Filters_normalizes:
  "map_of (fixAPIV2Filters filters) ''agent_id'' = None
   \<and> (\<forall>k \<in> {''user_id'', ''app_id'', ''run_id''}.
        map_of (fixAPIV2Filters filters) k =
          Some (case lookup filters k of None \<Rightarrow> AString ''*'' | Some v \<Rightarrow> v))
   \<and> (\<forall>k. k \<notin> {''agent_id'', ''user_id'', ''app_id'', ''run_id''}
        \<longrightarrow> map_of (fixAPIV2Filters filters) k = lookup filters k)"
  by (auto simp: map_of_fixAPIV2Filters SearchWildcard_def split: option.splits)

theorem fixAPIV2Filters_normalizes_witness:
  "map_of (fixAPIV2Filters (Some [(''agent_id'', AString ''a''), (''user_id'', AString ''u''),
      (''limit'', AInt 3)])) ''agent_id'' = None
   \<and> map_of (fixAPIV2Filters (Some [(''agent_id'', AString ''a''), (''user_id'', AString ''u''),
      (''limit'', AInt 3)])) ''user_id'' = Some (AString ''u'')
   \<and> map_of (fixAPIV2Filters (Some [(''agent_id'', AString ''a''), (''user_id'', AString ''u''),
      (''limit'', AInt 3)])) ''app_id'' = Some (AString ''*'')
   \<and> map_of (fixAPIV2Filters (Some [(''agent_id'', AString ''a''), (''user_id'', AString ''u''),
      (''limit'', AInt 3)])) ''run_id'' = Some (AString ''*'')
   \<and> map_of (fixAPIV2Filters (Some [(''agent_id'', AString ''a''), (''user_id'', AString ''u''),
      (''limit'', AInt 3)])) ''limit'' = Some (AInt 3)
   \<and> map_of (fixAPIV2Filters None) ''run_id'' = Some (AString ''*'')"
  using fixAPIV2Filters_normalizes [of "Some [(''agent_id'', AString ''a''),
      (''user_id'', AString ''u''), (''limit'', AInt 3)]"]
    fixAPIV2Filters_normalizes [of None]
  by (simp add: lookup_def)

section \<open>Properties of the construction\<close>

lemma validateOrgProject_names:
  "(organizationName c = '''') \<noteq> (projectName c = '''') \<Longrightarrow>
   validateOrgProject c =
     Some (ErrorsNew ''both organizationName and projectName must be provided together'')"
  by (auto simp: validateOrgProject_def)

lemma validateOrgProject_ids:
  "(organizationName c = '''') = (projectName c = '''') \<Longrightarrow>
   (organizationID c = '''') \<noteq> (projectID c = '''') \<Longrightarrow>
   validateOrgProject c =
     Some (ErrorsNew ''both organizationID and projectID must be provided together'')"
  by (auto simp: validateOrgProject_def)

lemma validateOrgProject_ok:
  "(organizationName c = '''') = (projectName c = '''') \<Longrightarrow>
   (organizationID c = '''') = (projectID c = '''') \<Longrightarrow>
   validateOrgProject c = None"
  by (auto simp: validateOrgProject_def)

lemma NewMemoryClient_with_key:
  "APIKey options \<noteq> '''' \<Longrightarrow>
   NewMemoryClient options net unmarshal =
     (case validateOrgProject (client_of options) of
        Some err \<Rightarrow> ([], Inl err)
      | None \<Rightarrow> ping (client_of options) net unmarshal)"
  unfolding NewMemoryClient_def Let_def client_of_def
  by (cases "Host options = ''''") (simp_all split: option.splits)

text \<open>
  Claim C4.  \<^verbatim>\<open>NewMemoryClient\<close> with an empty API key, or with exactly one of the
  organization and project names, or with exactly one of the organization and project
  identifiers, returns the error of that check and hands no request to the transport;
  only when all three checks pass does it go on to the ping.
\<close>

theorem NewMemoryClient_config_errors:
  "(APIKey options = '''' \<longrightarrow>
      NewMemoryClient options net unmarshal = ([], Inl (ErrorsNew ''API key is required'')))
   \<and> (APIKey options \<noteq> ''''
        \<and> (OrganizationName options = '''') \<noteq> (ClientOptions.ProjectName options = '''') \<longrightarrow>
      NewMemoryClient options net unmarshal =
        ([], Inl (ErrorsNew ''both organizationName and projectName must be provided together'')))
   \<and> (APIKey options \<noteq> ''''
        \<and> (OrganizationName options = '''') = (ClientOptions.ProjectName options = '''')
        \<and> (OrganizationID options = '''') \<noteq> (ClientOptions.ProjectID options = '''') \<longrightarrow>
      NewMemoryClient options net unmarshal =
        ([], Inl (ErrorsNew ''both organizationID and projectID must be provided together'')))
   \<and> (APIKey options \<noteq> ''''
        \<and> (OrganizationName options = '''') = (ClientOptions.ProjectName options = '''')
        \<and> (OrganizationID options = '''') = (ClientOptions.ProjectID options = '''') \<longrightarrow>
      NewMemoryClient options net unmarshal = ping (client_of options) net unmarshal)"
proof (intro conjI impI)
  assume "APIKey options = ''''"
  then show "NewMemoryClient options net unmarshal = ([], Inl (ErrorsNew ''API key is required''))"
    by (simp add: NewMemoryClient_def)
next
  assume a: "APIKey options \<noteq> ''''
    \<and> (OrganizationName options = '''') \<noteq> (ClientOptions.ProjectName options = '''')"
  then have "(organizationName (client_of options) = '''')
      \<noteq> (projectName (client_of options) = '''')"
    by (simp add: client_of_def)
  from validateOrgProject_names [OF this] a
  show "NewMemoryClient options net unmarshal =
      ([], Inl (ErrorsNew ''both organizationName and projectName must be provided together''))"
    by (simp add: NewMemoryClient_with_key)
next
  assume a: "APIKey options \<noteq> ''''
    \<and> (OrganizationName options = '''') = (ClientOptions.ProjectName options = '''')
    \<and> (OrganizationID options = '''') \<noteq> (ClientOptions.ProjectID options = '''')"
  then have "(organizationName (client_of options) = '''')
      = (projectName (client_of options) = '''')"
    and "(organizationID (client_of options) = '''') \<noteq> (projectID (client_of options) = '''')"
    by (simp_all add: client_of_def)
  from validateOrgProject_ids [OF this] a
  show "NewMemoryClient options net unmarshal =
      ([], Inl (ErrorsNew ''both organizationID and projectID must be provided together''))"
    by (simp add: NewMemoryClient_with_key)
next
  assume a: "APIKey options \<noteq> ''''
    \<and> (OrganizationName options = '''') = (ClientOptions.ProjectName options = '''')
    \<and> (OrganizationID options = '''') = (ClientOptions.ProjectID options = '''')"
  then have "(organizationName (client_of options) = '''')
      = (projectName (client_of options) = '''')"
    and "(organizationID (client_of options) = '''') = (projectID (client_of options) = '''')"
    by (simp_all add: client_of_def)
  from validateOrgProject_ok [OF this] a
  show "NewMemoryClient options net unmarshal = ping (client_of options) net unmarshal"
    by (simp add: NewMemoryClient_with_key)
qed

theorem NewMemoryClient_config_errors_witness:
  "NewMemoryClient
       \<lparr>APIKey = '''', Host = '''', OrganizationName = '''', ClientOptions.ProjectName = '''',
        OrganizationID = '''', ClientOptions.ProjectID = ''''\<rparr>
       unreachable undecodable
     = ([], Inl (ErrorsNew ''API key is required''))
   \<and> NewMemoryClient
       \<lparr>APIKey = ''test-key'', Host = '''', OrganizationName = ''acme'',
        ClientOptions.ProjectName = '''', OrganizationID = '''',
        ClientOptions.ProjectID = ''''\<rparr>
       unreachable undecodable
     = ([], Inl (ErrorsNew ''both organizationName and projectName must be provided together''))
   \<and> NewMemoryClient
       \<lparr>APIKey = ''test-key'', Host = '''', OrganizationName = '''',
        ClientOptions.ProjectName = '''', OrganizationID = '''',
        ClientOptions.ProjectID = ''p-1''\<rparr>
       unreachable undecodable
     = ([], Inl (ErrorsNew ''both organizationID and projectID must be provided together''))"
  using
    NewMemoryClient_config_errors [of
      "\<lparr>APIKey = '''', Host = '''', OrganizationName = '''', ClientOptions.ProjectName = '''',
        OrganizationID = '''', ClientOptions.ProjectID = ''''\<rparr>" unreachable undecodable]
    NewMemoryClient_config_errors [of
      "\<lparr>APIKey = ''test-key'', Host = '''', OrganizationName = ''acme'',
        ClientOptions.ProjectName = '''', OrganizationID = '''',
        ClientOptions.ProjectID = ''''\<rparr>" unreachable undecodable]
    NewMemoryClient_config_errors [of
      "\<lparr>APIKey = ''test-key'', Host = '''', OrganizationName = '''',
        ClientOptions.ProjectName = '''', OrganizationID = '''',
        ClientOptions.ProjectID = ''p-1''\<rparr>" unreachable undecodable]
  by simp

section \<open>Properties of the identifier arguments\<close>

lemma doRequest_no_body:
  "NewRequest net method (host c @ path) = None \<Longrightarrow>
   doRequest c net method path None =
     ([new_request c method path None], Do net (new_request c method path None))"
  by (simp add: doRequest_def Let_def)

lemma doRequest_text_body:
  "NewRequest net method (host c @ path) = None \<Longrightarrow>
   doRequest c net method path (Some (BodyMap [(''text'', AString message)])) =
     ([new_request c method path (Some (BodyMap [(''text'', AString message)]))],
      Do net (new_request c method path (Some (BodyMap [(''text'', AString message)]))))"
  by (simp add: doRequest_def Let_def body_marshalable_def)

text \<open>
  Claim C8, as the code has it.  No operation checks its identifier argument.  Called
  with the empty identifier, each of \<^verbatim>\<open>Get\<close>, \<^verbatim>\<open>Update\<close>, \<^verbatim>\<open>Delete\<close>, \<^verbatim>\<open>History\<close>,
  \<^verbatim>\<open>DeleteUser\<close>, \<^verbatim>\<open>DeleteWebhook\<close> and \<^verbatim>\<open>GetEvent\<close> builds the request for the path
  with an empty identifier segment and, when \<^verbatim>\<open>http.NewRequest\<close> accepts the URL, hands
  exactly that request to the transport; the result is what the answer of the
  transport makes it.
\<close>

theorem empty_identifier_is_sent:
  "(NewRequest net ''GET'' (host c @ ''/v1/memories//'') = None \<longrightarrow>
      Get c net unmarshal '''' =
        answered ([new_request c ''GET'' ''/v1/memories//'' None],
                  Do net (new_request c ''GET'' ''/v1/memories//'' None))
          (decode_response unmarshal))
   \<and> (NewRequest net ''PUT'' (host c @ ''/v1/memories//'') = None \<longrightarrow>
      Update c net unmarshal '''' message =
        answered ([new_request c ''PUT'' ''/v1/memories//''
                     (Some (BodyMap [(''text'', AString message)]))],
                  Do net (new_request c ''PUT'' ''/v1/memories//''
                     (Some (BodyMap [(''text'', AString message)]))))
          (decode_response unmarshal))
   \<and> (NewRequest net ''DELETE'' (host c @ ''/v1/memories//'') = None \<longrightarrow>
      Delete c net '''' =
        answered ([new_request c ''DELETE'' ''/v1/memories//'' None],
                  Do net (new_request c ''DELETE'' ''/v1/memories//'' None))
          check_response)
   \<and> (NewRequest net ''GET'' (host c @ ''/v1/memories//history/'') = None \<longrightarrow>
      History c net unmarshal '''' =
        answered ([new_request c ''GET'' ''/v1/memories//history/'' None],
                  Do net (new_request c ''GET'' ''/v1/memories//history/'' None))
          (decode_response unmarshal))
   \<and> (NewRequest net ''DELETE'' (host c @ ''/v1/users//'') = None \<longrightarrow>
      DeleteUser c net '''' =
        answered ([new_request c ''DELETE'' ''/v1/users//'' None],
                  Do net (new_request c ''DELETE'' ''/v1/users//'' None))
          check_response)
   \<and> (NewRequest net ''DELETE'' (host c @ ''/v1/webhooks//'') = None \<longrightarrow>
      DeleteWebhook c net '''' =
        answered ([new_request c ''DELETE'' ''/v1/webhooks//'' None],
                  Do net (new_request c ''DELETE'' ''/v1/webhooks//'' None))
          check_response)
   \<and> (NewRequest net ''GET'' (host c @ ''/v1/event//'') = None \<longrightarrow>
      GetEvent c net unmarshal '''' =
        answered ([new_request c ''GET'' ''/v1/event//'' None],
                  Do net (new_request c ''GET'' ''/v1/event//'' None))
          (decode_response unmarshal))"
  by (simp add: Get_def Update_def Delete_def History_def DeleteUser_def DeleteWebhook_def
      GetEvent_def doRequest_no_body doRequest_text_body)

theorem empty_identifier_is_sent_witness:
  "Get test_client (answering \<lparr>StatusCode = 200, ResponseBody = ''{}''\<rparr>) Inr '''' =
     ([\<lparr>Method = ''GET'', URL = ''https://api.mem0.ai/v1/memories//'',
        Header = [(''Authorization'', ''Token test-key''),
                  (''Content-Type'', ''application/json'')],
        Body = None\<rparr>],
      Inr ''{}'')"
  using empty_identifier_is_sent [where c = test_client
      and net = "answering \<lparr>StatusCode = 200, ResponseBody = ''{}''\<rparr>"
      and unmarshal = "Inr :: string \<Rightarrow> error + string"]
  by (simp add: answering_def answered_def decode_response_def new_request_def
      test_client_def client_of_def)

text \<open>
  Claim C8 as stated fails: \<^verbatim>\<open>Delete\<close> with the empty identifier returns no error; it
  sends \<^verbatim>\<open>DELETE /v1/memories//\<close> and succeeds when the service answers 200.
\<close>

theorem Delete_empty_identifier_counterexample:
  "Delete test_client (answering \<lparr>StatusCode = 200, ResponseBody = ''''\<rparr>) '''' =
     ([\<lparr>Method = ''DELETE'', URL = ''https://api.mem0.ai/v1/memories//'',
        Header = [(''Authorization'', ''Token test-key''),
                  (''Content-Type'', ''application/json'')],
        Body = None\<rparr>],
      Inr ())"
  by (simp add: Delete_def doRequest_def answering_def answered_def check_response_def
      new_request_def test_client_def client_of_def Let_def)

section \<open>Properties of the payload\<close>

lemma map_of_merge:
  "map_of (merge optionsMap payload) k =
     (case map_of (rev (filter (\<lambda>kv. snd kv \<noteq> ANil) optionsMap)) k of
        None \<Rightarrow> map_of payload k
      | Some v \<Rightarrow> Some v)"
proof (induction optionsMap arbitrary: payload)
  case Nil
  then show ?case by (simp add: merge_def)
next
  case (Cons kv optionsMap)
  have step: "merge (kv # optionsMap) payload =
      merge optionsMap (if snd kv \<noteq> ANil then AList.update (fst kv) (snd kv) payload
                        else payload)"
    by (simp add: merge_def)
  show ?case
    unfolding step Cons.IH
    by (cases kv) (auto simp: update_conv' map_add_def split: option.splits)
qed

lemma map_of_json_string [simp]:
  "map_of (rev (filter P (json_string name s))) k =
     (if k = name \<and> s \<noteq> '''' \<and> P (name, AString s) then Some (AString s) else None)"
  by (simp add: json_string_def)

lemma map_of_json_int [simp]:
  "map_of (rev (filter P (json_int lib name i))) k =
     (if k = name \<and> i \<noteq> 0 \<and> P (name, AFloat (Float64_of_int lib i))
      then Some (AFloat (Float64_of_int lib i)) else None)"
  by (simp add: json_int_def)

lemma map_of_json_float [simp]:
  "map_of (rev (filter P (json_float name x))) k =
     (if k = name \<and> \<not> float_is_zero x \<and> P (name, AFloat x) then Some (AFloat x) else None)"
  by (simp add: json_float_def)

lemma map_of_json_bool [simp]:
  "map_of (rev (filter P (json_bool name b))) k =
     (if k = name \<and> b \<and> P (name, ABool True) then Some (ABool True) else None)"
  by (simp add: json_bool_def)

lemma map_of_json_map [simp]:
  "map_of (rev (filter P (json_map lib name m))) k =
     (if k = name
      then (case m of
              None \<Rightarrow> None
            | Some entries \<Rightarrow>
                if entries \<noteq> [] \<and> P (name, decoded lib (AMap entries)) then Some (decoded lib (AMap entries)) else None)
      else None)"
  by (simp add: json_map_def split: option.splits)

lemma map_of_json_strings [simp]:
  "map_of (rev (filter P (json_strings name xs))) k =
     (if k = name
      then (case xs of
              None \<Rightarrow> None
            | Some items \<Rightarrow>
                if items \<noteq> [] \<and> P (name, ASlice (map AString items)) then Some (ASlice (map AString items)) else None)
      else None)"
  by (simp add: json_strings_def split: option.splits)

lemma map_of_json_messages [simp]:
  "map_of (rev (filter P (json_messages name ms))) k =
     (if k = name
      then (case ms of
              None \<Rightarrow> None
            | Some items \<Rightarrow>
                if items \<noteq> [] \<and> P (name, ASlice (map Message_json items)) then Some (ASlice (map Message_json items)) else None)
      else None)"
  by (simp add: json_messages_def split: option.splits)

lemma map_of_json_categories [simp]:
  "map_of (rev (filter P (json_categories name cs))) k =
     (if k = name
      then (case cs of
              None \<Rightarrow> None
            | Some items \<Rightarrow>
                if items \<noteq> [] \<and> P (name, ASlice (map CustomCategory_json items)) then Some (ASlice (map CustomCategory_json items)) else None)
      else None)"
  by (simp add: json_categories_def split: option.splits)

lemma messages_entry:
  "map_of (rev (filter (\<lambda>kv. snd kv \<noteq> ANil) (MemoryOptions_entries lib False opts))) ''messages'' =
     (case Messages opts of
        None \<Rightarrow> None
      | Some items \<Rightarrow> if items = [] then None else Some (ASlice (map Message_json items)))"
  by (simp add: MemoryOptions_entries_def map_add_def split: option.splits)

lemma with_org_project_keeps [simp]:
  "Messages (with_org_project c options) = Messages options"
  "Metadata (with_org_project c options) = Metadata options"
  "MemoryOptions.Filters (with_org_project c options) = MemoryOptions.Filters options"
  "MemoryOptions.Version (with_org_project c options) = MemoryOptions.Version options"
  by (simp_all add: with_org_project_def Let_def)

lemma messages_list_None [simp]: "messages_list messages = None \<longleftrightarrow> messages = MOther"
  by (cases messages) simp_all

lemma merged_messages:
  "map_of (merge (MemoryOptions_entries lib False opts) [(''messages'', AMessages msgs)])
       ''messages'' =
     Some (case Messages opts of
             None \<Rightarrow> AMessages msgs
           | Some items \<Rightarrow> if items = [] then AMessages msgs
                            else ASlice (map Message_json items))"
  by (simp add: map_of_merge messages_entry split: option.splits)

lemma preparePayload_accepted:
  assumes "messages_list messages = Some msgs"
  shows "preparePayload c lib messages options =
     (if map_marshalable (Metadata options) \<and> map_marshalable (MemoryOptions.Filters options)
      then Inr (let payload1 = merge (MemoryOptions_entries lib False (with_org_project c options))
                                 [(''messages'', AMessages msgs)]
                in if IsDefault (MemoryOptions.Version options)
                   then AList.update ''version'' (AString DefaultAPIVersion) payload1
                   else payload1)
      else Inl json_error)"
  using assms
  by (simp add: preparePayload_def MemoryOptions_optionsMap_def Let_def has_key_def
      merged_messages)

text \<open>
  Claim C9, as the code has it.  \<^verbatim>\<open>preparePayload\<close> returns the error
  \<^verbatim>\<open>invalid messages type\<close> exactly when the messages argument is none of a string, a
  slice of strings, a \<^verbatim>\<open>Message\<close> and a slice of \<^verbatim>\<open>Message\<close>.  For an accepted argument
  it returns the error of \<^verbatim>\<open>json.Marshal\<close> exactly when the metadata or the filters of
  the options hold a value that JSON cannot encode, and a payload otherwise.  In a
  payload the key \<^verbatim>\<open>messages\<close> holds the decoded \<^verbatim>\<open>Messages\<close> field of the options when
  that field is not empty, and otherwise the list of \<^verbatim>\<open>Message\<close> built from the argument
  (role \<^verbatim>\<open>user\<close> for bare strings).
\<close>

theorem preparePayload_messages:
  "(preparePayload c lib messages options = Inl (ErrorsNew ''invalid messages type'')
      \<longleftrightarrow> messages = MOther)
   \<and> (messages \<noteq> MOther \<longrightarrow>
        (preparePayload c lib messages options = Inl json_error
           \<longleftrightarrow> \<not> (map_marshalable (Metadata options)
                  \<and> map_marshalable (MemoryOptions.Filters options))))
   \<and> (messages \<noteq> MOther \<and> map_marshalable (Metadata options)
         \<and> map_marshalable (MemoryOptions.Filters options) \<longrightarrow>
        (\<exists>payload. preparePayload c lib messages options = Inr payload))
   \<and> (\<forall>payload. preparePayload c lib messages options = Inr payload \<longrightarrow>
        (\<exists>msgs. messages_list messages = Some msgs
           \<and> map_of payload ''messages'' =
               Some (case Messages options of
                       None \<Rightarrow> AMessages msgs
                     | Some items \<Rightarrow> if items = [] then AMessages msgs
                                      else ASlice (map Message_json items))))
   \<and> messages_list (MString s) = Some [\<lparr>Role = ''user'', Content = s\<rparr>]
   \<and> messages_list (MStrings ss) = Some (map (\<lambda>msg. \<lparr>Role = ''user'', Content = msg\<rparr>) ss)
   \<and> messages_list (MMessage m) = Some [m]
   \<and> messages_list (MMessages ms) = Some ms"
proof (cases "messages_list messages")
  case None
  then show ?thesis
    by (simp add: preparePayload_def)
next
  case (Some msgs)
  then have "messages \<noteq> MOther"
    by (cases messages) simp_all
  with Some show ?thesis
    by (auto simp: preparePayload_accepted [OF Some] json_error_def Let_def update_conv'
        merged_messages)
qed

theorem preparePayload_messages_witness:
  "preparePayload test_client plain_lib (MStrings [''Hello'', ''World'']) MemoryOptions_zero =
     Inr [(''messages'', AMessages [\<lparr>Role = ''user'', Content = ''Hello''\<rparr>,
                                    \<lparr>Role = ''user'', Content = ''World''\<rparr>]),
          (''version'', AString ''v2'')]
   \<and> preparePayload test_client plain_lib MOther MemoryOptions_zero =
     Inl (ErrorsNew ''invalid messages type'')"
  using preparePayload_messages [where c = test_client and lib = plain_lib
      and messages = "MStrings [''Hello'', ''World'']" and options = MemoryOptions_zero]
    preparePayload_messages [where c = test_client and lib = plain_lib
      and messages = MOther and options = MemoryOptions_zero]
  by (simp add: preparePayload_def MemoryOptions_optionsMap_def MemoryOptions_entries_def
      MemoryOptions_zero_def with_org_project_def test_client_def client_of_def
      map_marshalable_def merge_def has_key_def IsDefault_def DefaultAPIVersion_def V2_def
      json_string_def json_int_def json_bool_def json_map_def json_categories_def
      json_messages_def Let_def)

text \<open>
  Claim C9 as stated fails twice.  A string argument with a non-empty \<^verbatim>\<open>Messages\<close> field
  in the options: the key \<^verbatim>\<open>messages\<close> holds the decoded field, not the message built
  from the string.  A string argument with a metadata value that JSON cannot encode:
  an error, though the argument has an accepted type.
\<close>

theorem preparePayload_messages_counterexample:
  "preparePayload test_client plain_lib (MString ''Hello'')
       (MemoryOptions_zero\<lparr>Messages := Some [\<lparr>Role = ''assistant'', Content = ''Hi''\<rparr>]\<rparr>) =
     Inr [(''messages'', ASlice [AMap [(''role'', AString ''assistant''),
                                      (''content'', AString ''Hi'')]]),
          (''version'', AString ''v2'')]
   \<and> preparePayload test_client plain_lib (MString ''Hello'')
       (MemoryOptions_zero\<lparr>Metadata := Some [(''seen'', AUnsupported)]\<rparr>) =
     Inl (LibraryError ''json: unsupported value'')"
  by (simp add: preparePayload_def MemoryOptions_optionsMap_def MemoryOptions_entries_def
      MemoryOptions_zero_def with_org_project_def test_client_def client_of_def
      map_marshalable_def merge_def has_key_def IsDefault_def DefaultAPIVersion_def V2_def
      json_string_def json_int_def json_bool_def json_map_def json_categories_def
      json_messages_def Message_json_def json_error_def Let_def)

section \<open>Properties of the zero values\<close>

lemma zero_value_field_param:
  "zero_value (snd f) \<Longrightarrow> field_param lib f = []"
  by (cases "snd f")
    (auto simp: field_param_def zero_value_def float_is_zero_def Let_def)

lemma query_values_filter_zero:
  "query_values lib (filter (\<lambda>f. \<not> zero_value (snd f)) fs) = query_values lib fs"
  by (induction fs) (simp_all add: query_values_def zero_value_field_param)

lemma field_param_key:
  "kv \<in> set (field_param lib f) \<Longrightarrow> fst kv = fst f"
  by (auto simp: field_param_def Let_def split: if_splits option.splits)

lemma query_values_key:
  "kv \<in> set (query_values lib fs) \<Longrightarrow> \<exists>f \<in> set fs. kv \<in> set (field_param lib f)"
  by (auto simp: query_values_def)

lemma silent_field_has_no_key:
  assumes "distinct (map fst fs)" and "f \<in> set fs" and "field_param lib f = []"
  shows "fst f \<notin> fst ` set (query_values lib fs)"
proof
  assume "fst f \<in> fst ` set (query_values lib fs)"
  then obtain kv where kv: "kv \<in> set (query_values lib fs)" and k: "fst kv = fst f"
    by auto
  from query_values_key [OF kv] obtain g where g: "g \<in> set fs" "kv \<in> set (field_param lib g)"
    by auto
  then have "fst g = fst f"
    using field_param_key [of kv lib g] k by simp
  with assms(1,2) g(1) have "g = f"
    by (meson eq_key_imp_eq_value prod_eqI distinct_map inj_onD)
  with g(2) assms(3) show False
    by simp
qed

lemma distinct_MemoryOptions_tags: "distinct (map fst (MemoryOptions_fields opts))"
  by (simp add: MemoryOptions_fields_def)

lemma distinct_SearchOptions_tags: "distinct (map fst (SearchOptions_fields s))"
  by (simp add: SearchOptions_fields_def SearchOptions_direct_fields_def)

lemma distinct_ProjectOptions_tags: "distinct (map fst (ProjectOptions_fields p))"
  by (simp add: ProjectOptions_fields_def)

lemma entry_of_zero_field:
  assumes "f \<in> set (MemoryOptions_fields opts)" and "zero_value (snd f)"
  shows "map_of (rev (filter P (MemoryOptions_entries lib False opts))) (wire_name (fst f)) = None"
  using assms
  unfolding MemoryOptions_fields_def
  apply simp
  apply (elim disjE)
  apply (simp_all add: MemoryOptions_entries_def map_add_def zero_value_def wire_name_def)
  apply auto
  done

lemma preparePayload_other_keys:
  assumes "preparePayload c lib messages options = Inr payload"
    and "k \<noteq> ''version''" and "k \<noteq> ''messages''"
  shows "map_of payload k =
     map_of (rev (filter (\<lambda>kv. snd kv \<noteq> ANil)
        (MemoryOptions_entries lib False (with_org_project c options)))) k"
proof (cases "messages_list messages")
  case None
  with assms(1) show ?thesis
    by (simp add: preparePayload_def)
next
  case (Some msgs)
  show ?thesis
    using assms
    by (auto simp: preparePayload_accepted [OF Some] Let_def update_conv' map_of_merge
        split: if_splits option.splits)
qed

text \<open>
  Claim C2, as the code has it.  A field that is unset hands nothing to \<^verbatim>\<open>values.Add\<close>,
  so the query string is the one of the set fields alone, and for each of the three
  options types the tag of an unset field is no key of the query.  In the payload of
  \<^verbatim>\<open>preparePayload\<close> an unset field of the options, as they are after the client has
  copied its organization and project into them, has no key, the fields
  \<^verbatim>\<open>version\<close> and \<^verbatim>\<open>messages\<close> apart.
\<close>

theorem zero_fields_not_emitted:
  "(\<forall>f \<in> set fs. zero_value (snd f) \<longrightarrow> field_param lib f = [])
   \<and> structToQuery lib fs = structToQuery lib (filter (\<lambda>f. \<not> zero_value (snd f)) fs)
   \<and> (\<forall>f \<in> set (MemoryOptions_fields options). zero_value (snd f) \<longrightarrow>
         fst f \<notin> fst ` set (query_values lib (MemoryOptions_fields options)))
   \<and> (\<forall>f \<in> set (SearchOptions_fields soptions). zero_value (snd f) \<longrightarrow>
         fst f \<notin> fst ` set (query_values lib (SearchOptions_fields soptions)))
   \<and> (\<forall>f \<in> set (ProjectOptions_fields poptions). zero_value (snd f) \<longrightarrow>
         fst f \<notin> fst ` set (query_values lib (ProjectOptions_fields poptions)))
   \<and> (\<forall>payload. preparePayload c lib messages options = Inr payload \<longrightarrow>
         (\<forall>f \<in> set (MemoryOptions_fields (with_org_project c options)).
            zero_value (snd f) \<and> wire_name (fst f) \<notin> {''version'', ''messages''} \<longrightarrow>
            \<not> has_key payload (wire_name (fst f))))"
proof (intro conjI ballI allI impI)
  fix f :: field assume "f \<in> set fs" "zero_value (snd f)"
  then show "field_param lib f = []"
    by (simp add: zero_value_field_param)
next
  show "structToQuery lib fs = structToQuery lib (filter (\<lambda>f. \<not> zero_value (snd f)) fs)"
    by (simp add: structToQuery_def query_values_filter_zero)
next
  fix f assume "f \<in> set (MemoryOptions_fields options)" "zero_value (snd f)"
  then show "fst f \<notin> fst ` set (query_values lib (MemoryOptions_fields options))"
    by (intro silent_field_has_no_key distinct_MemoryOptions_tags zero_value_field_param)
next
  fix f assume "f \<in> set (SearchOptions_fields soptions)" "zero_value (snd f)"
  then show "fst f \<notin> fst ` set (query_values lib (SearchOptions_fields soptions))"
    by (intro silent_field_has_no_key distinct_SearchOptions_tags zero_value_field_param)
next
  fix f assume "f \<in> set (ProjectOptions_fields poptions)" "zero_value (snd f)"
  then show "fst f \<notin> fst ` set (query_values lib (ProjectOptions_fields poptions))"
    by (intro silent_field_has_no_key distinct_ProjectOptions_tags zero_value_field_param)
next
  fix payload f
  assume p: "preparePayload c lib messages options = Inr payload"
    and f: "f \<in> set (MemoryOptions_fields (with_org_project c options))"
    and z: "zero_value (snd f) \<and> wire_name (fst f) \<notin> {''version'', ''messages''}"
  from z have "wire_name (fst f) \<noteq> ''version''" "wire_name (fst f) \<noteq> ''messages''"
    by simp_all
  from preparePayload_other_keys [OF p this] entry_of_zero_field [OF f] z
  show "\<not> has_key payload (wire_name (fst f))"
    by (simp add: has_key_def)
qed

theorem zero_fields_not_emitted_witness:
  "zero_value (RString (UserID (MemoryOptions_zero\<lparr>AgentID := ''a-1'', MemoryOptions.Page := 2\<rparr>)))
   \<and> query_values plain_lib (MemoryOptions_fields (MemoryOptions_zero\<lparr>AgentID := ''a-1'', MemoryOptions.Page := 2\<rparr>))
       = [(''agent_id,omitempty'', ''a-1''), (''page,omitempty'', ''2'')]
   \<and> ''user_id,omitempty'' \<notin> fst ` set (query_values plain_lib
         (MemoryOptions_fields (MemoryOptions_zero\<lparr>AgentID := ''a-1'', MemoryOptions.Page := 2\<rparr>)))
   \<and> preparePayload test_client plain_lib (MString ''Hello'')
         (MemoryOptions_zero\<lparr>AgentID := ''a-1''\<rparr>)
       = Inr [(''messages'', AMessages [\<lparr>Role = ''user'', Content = ''Hello''\<rparr>]),
              (''agent_id'', AString ''a-1''), (''version'', AString ''v2'')]
   \<and> \<not> has_key [(''messages'', AMessages [\<lparr>Role = ''user'', Content = ''Hello''\<rparr>]),
              (''agent_id'', AString ''a-1''), (''version'', AString ''v2'')] ''user_id''"
  using zero_fields_not_emitted [where lib = plain_lib
      and options = "MemoryOptions_zero\<lparr>AgentID := ''a-1'', MemoryOptions.Page := 2\<rparr>"]
    zero_fields_not_emitted [where lib = plain_lib and c = test_client
      and messages = "MString ''Hello''"
      and options = "MemoryOptions_zero\<lparr>AgentID := ''a-1''\<rparr>"]
  by (simp add: zero_value_def query_values_def MemoryOptions_fields_def field_param_def
      MemoryOptions_zero_def FormatInt_def FormatUint.simps digit_def has_key_def
      preparePayload_def MemoryOptions_optionsMap_def MemoryOptions_entries_def
      with_org_project_def test_client_def client_of_def
      map_marshalable_def merge_def IsDefault_def DefaultAPIVersion_def V2_def
      json_string_def json_int_def json_bool_def json_map_def json_categories_def
      json_messages_def Let_def)

text \<open>
  Claim C2 as stated fails on the request body: with every field of the options unset,
  \<^verbatim>\<open>Version\<close> among them, the payload has the key \<^verbatim>\<open>version\<close>.
\<close>

theorem zero_version_is_emitted_counterexample:
  "MemoryOptions.Version MemoryOptions_zero = ''''
   \<and> preparePayload test_client plain_lib (MString ''Hello'') MemoryOptions_zero =
       Inr [(''messages'', AMessages [\<lparr>Role = ''user'', Content = ''Hello''\<rparr>]),
            (''version'', AString ''v2'')]"
  by (simp add: preparePayload_def MemoryOptions_optionsMap_def MemoryOptions_entries_def
      MemoryOptions_zero_def with_org_project_def test_client_def client_of_def
      map_marshalable_def merge_def has_key_def IsDefault_def DefaultAPIVersion_def V2_def
      json_string_def json_int_def json_bool_def json_map_def json_categories_def
      json_messages_def Let_def)

section \<open>Properties of the version gate\<close>

lemma fixAPIV2Filters_empty: "fixAPIV2Filters (Some []) = fixAPIV2Filters None"
  by (simp add: fixAPIV2Filters_def)

lemma GetAll_request_filters:
  "getAllRequest.Filters (GetAll_request c (Some opts)) =
     (if IsDefault (SearchOptions.Version opts)
      then Some (fixAPIV2Filters (MemoryOptions.Filters (MemoryOptions opts)))
      else Some (case MemoryOptions.Filters (MemoryOptions opts) of
                   None \<Rightarrow> [] | Some m \<Rightarrow> m))"
  by (cases "MemoryOptions.Filters (MemoryOptions opts)")
    (simp_all add: GetAll_request_def Let_def fixAPIV2Filters_empty)

lemma filters_entry:
  "map_of (rev (filter P (MemoryOptions_entries lib shadowed opts))) ''filters'' =
     (case MemoryOptions.Filters opts of
        None \<Rightarrow> None
      | Some entries \<Rightarrow>
          if entries \<noteq> [] \<and> P (''filters'', decoded lib (AMap entries))
          then Some (decoded lib (AMap entries)) else None)"
  by (simp add: MemoryOptions_entries_def map_add_def split: option.splits)

lemma Search_optionsMap_filters:
  assumes "SearchOptions_optionsMap lib s = Inr optionsMap"
  shows "map_of (merge optionsMap [(''query'', AString query)]) ''filters'' =
     (case MemoryOptions.Filters (MemoryOptions s) of
        None \<Rightarrow> None
      | Some entries \<Rightarrow> if entries = [] then None else Some (decoded lib (AMap entries)))"
proof -
  from assms have "optionsMap =
      MemoryOptions_entries lib True (MemoryOptions s)
      @ json_bool ''enable_graph'' (SearchOptions.EnableGraph s)
      @ json_float ''threshold'' (Threshold s)
      @ json_int lib ''top_k'' (TopK s)
      @ json_bool ''only_metadata_based_search'' (OnlyMetadataBasedSearch s)
      @ json_bool ''keyword_search'' (KeywordSearch s)
      @ json_strings ''fields'' (SearchOptions.Fields s)
      @ json_strings ''categories'' (Categories s)
      @ json_bool ''rerank'' (Rerank s)
      @ json_string ''version'' (SearchOptions.Version s)"
    by (simp add: SearchOptions_optionsMap_def split: if_splits)
  then show ?thesis
    by (simp add: map_of_merge filters_entry map_add_def split: option.splits)
qed

lemma Search_payload_filters:
  assumes "Search_payload c lib query options = Inr payload"
  shows "map_of payload ''filters'' =
     (let opts = (case options of None \<Rightarrow> SearchOptions_zero | Some s \<Rightarrow> s) in
      case MemoryOptions.Filters (MemoryOptions opts) of
        None \<Rightarrow> None
      | Some entries \<Rightarrow>
          if entries = [] then None
          else if IsDefault (SearchOptions.Version opts)
          then Some (AMap (fixAPIV2Filters
                 (Some (map (\<lambda>kv. (fst kv, decoded lib (snd kv))) entries))))
          else Some (AMap (map (\<lambda>kv. (fst kv, decoded lib (snd kv))) entries)))"
proof -
  define opts where "opts = (case options of None \<Rightarrow> SearchOptions_zero | Some s \<Rightarrow> s)"
  define opts2 where "opts2 = opts\<lparr>MemoryOptions := with_org_project c (MemoryOptions opts)\<rparr>"
  from assms obtain optionsMap where om: "SearchOptions_optionsMap lib opts2 = Inr optionsMap"
    by (auto simp: Search_payload_def Let_def opts_def opts2_def split: sum.splits)
  have f: "map_of (merge optionsMap [(''query'', AString query)]) ''filters'' =
     (case MemoryOptions.Filters (MemoryOptions opts) of
        None \<Rightarrow> None
      | Some entries \<Rightarrow> if entries = [] then None else Some (decoded lib (AMap entries)))"
    using Search_optionsMap_filters [OF om, of query]
    by (simp add: opts2_def)
  have v: "SearchOptions.Version opts2 = SearchOptions.Version opts"
    by (simp add: opts2_def)
  from assms om show ?thesis
    unfolding Search_payload_def Let_def opts_def [symmetric] opts2_def [symmetric]
    by (auto simp: f v update_conv' split: option.splits if_splits any.splits)
qed

text \<open>
  Claim C5, as the code has it.  The body of \<^verbatim>\<open>GetAll\<close> is the zero request when the
  options are nil; otherwise its filters are the normalized filters of the options
  (a nil map counting as empty) when the version of the options is \<^verbatim>\<open>v2\<close> or empty,
  and the filters of the options, unmodified, when it is anything else, \<^verbatim>\<open>v1\<close> included.
  The payload of \<^verbatim>\<open>Search\<close> has a \<^verbatim>\<open>filters\<close> entry only when the filters of the
  options are not empty; the entry is the normalized decoded map when the version is
  \<^verbatim>\<open>v2\<close> or empty, and the decoded map, unmodified, otherwise.
\<close>

theorem version_gates_normalization:
  "GetAll_request c None = getAllRequest_zero
   \<and> getAllRequest.Filters (GetAll_request c (Some opts)) =
       (if IsDefault (SearchOptions.Version opts)
        then Some (fixAPIV2Filters (MemoryOptions.Filters (MemoryOptions opts)))
        else Some (case MemoryOptions.Filters (MemoryOptions opts) of
                     None \<Rightarrow> [] | Some m \<Rightarrow> m))
   \<and> (\<forall>payload. Search_payload c lib query options = Inr payload \<longrightarrow>
         map_of payload ''filters'' =
           (let sopts = (case options of None \<Rightarrow> SearchOptions_zero | Some s \<Rightarrow> s) in
            case MemoryOptions.Filters (MemoryOptions sopts) of
              None \<Rightarrow> None
            | Some entries \<Rightarrow>
                if entries = [] then None
                else if IsDefault (SearchOptions.Version sopts)
                then Some (AMap (fixAPIV2Filters
                       (Some (map (\<lambda>kv. (fst kv, decoded lib (snd kv))) entries))))
                else Some (AMap (map (\<lambda>kv. (fst kv, decoded lib (snd kv))) entries))))
   \<and> (IsDefault v \<longleftrightarrow> v = ''v2'' \<or> v = '''')
   \<and> \<not> IsDefault V1"
proof (intro conjI allI impI)
  show "GetAll_request c None = getAllRequest_zero"
    by (simp add: GetAll_request_def)
next
  show "getAllRequest.Filters (GetAll_request c (Some opts)) =
       (if IsDefault (SearchOptions.Version opts)
        then Some (fixAPIV2Filters (MemoryOptions.Filters (MemoryOptions opts)))
        else Some (case MemoryOptions.Filters (MemoryOptions opts) of
                     None \<Rightarrow> [] | Some m \<Rightarrow> m))"
    by (rule GetAll_request_filters)
next
  fix payload assume "Search_payload c lib query options = Inr payload"
  then show "map_of payload ''filters'' =
           (let sopts = (case options of None \<Rightarrow> SearchOptions_zero | Some s \<Rightarrow> s) in
            case MemoryOptions.Filters (MemoryOptions sopts) of
              None \<Rightarrow> None
            | Some entries \<Rightarrow>
                if entries = [] then None
                else if IsDefault (SearchOptions.Version sopts)
                then Some (AMap (fixAPIV2Filters
                       (Some (map (\<lambda>kv. (fst kv, decoded lib (snd kv))) entries))))
                else Some (AMap (map (\<lambda>kv. (fst kv, decoded lib (snd kv))) entries)))"
    by (rule Search_payload_filters)
next
  show "IsDefault v \<longleftrightarrow> v = ''v2'' \<or> v = ''''"
    by (simp add: IsDefault_def DefaultAPIVersion_def V2_def)
next
  show "\<not> IsDefault V1"
    by (simp add: IsDefault_def DefaultAPIVersion_def V2_def V1_def)
qed

theorem version_gates_normalization_witness:
  "Search_payload test_client plain_lib ''pizza''
       (Some (SearchOptions_zero\<lparr>
          MemoryOptions := MemoryOptions_zero\<lparr>MemoryOptions.Filters :=
             Some [(''agent_id'', AString ''a-1'')]\<rparr>,
          SearchOptions.Version := ''v1''\<rparr>)) =
     Inr [(''query'', AString ''pizza''), (''filters'', AMap [(''agent_id'', AString ''a-1'')]),
          (''version'', AString ''v1'')]
   \<and> Search_payload test_client plain_lib ''pizza''
       (Some (SearchOptions_zero\<lparr>
          MemoryOptions := MemoryOptions_zero\<lparr>MemoryOptions.Filters :=
             Some [(''agent_id'', AString ''a-1'')]\<rparr>\<rparr>)) =
     Inr [(''query'', AString ''pizza''),
          (''filters'', AMap [(''user_id'', AString ''*''), (''app_id'', AString ''*''),
                              (''run_id'', AString ''*'')]),
          (''filter_memories'', ABool True)]
   \<and> getAllRequest.Filters (GetAll_request test_client
       (Some (SearchOptions_zero\<lparr>
          MemoryOptions := MemoryOptions_zero\<lparr>MemoryOptions.Filters :=
             Some [(''agent_id'', AString ''a-1'')]\<rparr>,
          SearchOptions.Version := ''v1''\<rparr>))) =
     Some [(''agent_id'', AString ''a-1'')]"
  using version_gates_normalization [where c = test_client and lib = plain_lib
      and query = "''pizza''"
      and opts = "SearchOptions_zero\<lparr>
          MemoryOptions := MemoryOptions_zero\<lparr>MemoryOptions.Filters :=
             Some [(''agent_id'', AString ''a-1'')]\<rparr>,
          SearchOptions.Version := ''v1''\<rparr>"
      and options = "Some (SearchOptions_zero\<lparr>
          MemoryOptions := MemoryOptions_zero\<lparr>MemoryOptions.Filters :=
             Some [(''agent_id'', AString ''a-1'')]\<rparr>,
          SearchOptions.Version := ''v1''\<rparr>)"]
  by (simp add: Search_payload_def SearchOptions_optionsMap_def MemoryOptions_entries_def
      SearchOptions_zero_def MemoryOptions_zero_def with_org_project_def test_client_def
      client_of_def map_marshalable_def merge_def IsDefault_def DefaultAPIVersion_def V2_def
      json_string_def json_int_def json_bool_def json_map_def json_categories_def
      json_messages_def json_float_def json_strings_def float_is_zero_def float_finite_def
      fixAPIV2Filters_def set_default_def has_key_def SearchWildcard_def Let_def
      GetAll_request_def)

text \<open>
  Claim C5 as stated fails: with no version pinned and no filters, \<^verbatim>\<open>Search\<close> sends no
  \<^verbatim>\<open>filters\<close> at all, where the normalizer would have put the three wildcards; and
  \<^verbatim>\<open>GetAll\<close> with nil options sends the zero request.
\<close>

theorem unpinned_version_without_normalization_counterexample:
  "IsDefault (SearchOptions.Version SearchOptions_zero)
   \<and> Search_payload test_client plain_lib ''pizza'' None = Inr [(''query'', AString ''pizza'')]
   \<and> Search_payload test_client plain_lib ''pizza'' (Some SearchOptions_zero) =
       Inr [(''query'', AString ''pizza'')]
   \<and> fixAPIV2Filters None =
       [(''user_id'', AString ''*''), (''app_id'', AString ''*''), (''run_id'', AString ''*'')]
   \<and> getAllRequest.Filters (GetAll_request test_client None) = None"
  by (simp add: Search_payload_def SearchOptions_optionsMap_def MemoryOptions_entries_def
      SearchOptions_zero_def MemoryOptions_zero_def with_org_project_def test_client_def
      client_of_def map_marshalable_def merge_def IsDefault_def DefaultAPIVersion_def V2_def
      json_string_def json_int_def json_bool_def json_map_def json_categories_def
      json_messages_def json_float_def json_strings_def float_is_zero_def float_finite_def
      fixAPIV2Filters_def set_default_def has_key_def SearchWildcard_def Let_def
      GetAll_request_def getAllRequest_zero_def)

section \<open>Properties of the query string\<close>

lemma hex_digits:
  "\<forall>n \<in> set [0..<16]. ishex (upperhex n) \<and> unhex (upperhex n) = n
      \<and> upperhex n \<noteq> CHR ''&'' \<and> upperhex n \<noteq> CHR '';'' \<and> upperhex n \<noteq> CHR ''=''"
  by code_simp

lemma hex_digit:
  assumes "n < 16"
  shows "ishex (upperhex n)" "unhex (upperhex n) = n"
    "upperhex n \<noteq> CHR ''&''" "upperhex n \<noteq> CHR '';''" "upperhex n \<noteq> CHR ''=''"
  using hex_digits assms by auto

lemma of_char_bound: "of_char c < (256 :: nat)"
proof -
  have "(of_char c :: nat) mod 256 < 256" by simp
  then show ?thesis by (simp only: of_char_mod_256)
qed

lemma unreserved_not_special:
  assumes "\<not> shouldEscape c"
  shows "c \<noteq> CHR ''%''" "c \<noteq> CHR ''+''" "c \<noteq> CHR ''&''" "c \<noteq> CHR '';''" "c \<noteq> CHR ''=''"
  using assms by (auto simp: shouldEscape_def alnum_def)

lemma unescape_escape_byte:
  "QueryUnescape (escape_byte c @ rest) = map_option ((#) c) (QueryUnescape rest)"
proof (cases "shouldEscape c")
  case False
  then show ?thesis
    using unreserved_not_special [OF False] by (simp add: escape_byte_def)
next
  case True
  have hi: "of_char c div 16 < (16 :: nat)"
    using of_char_bound [of c] by arith
  have lo: "of_char c mod 16 < (16 :: nat)"
    by simp
  show ?thesis
    using True hex_digit [OF hi] hex_digit [OF lo]
    by (simp add: escape_byte_def)
qed

lemma QueryUnescape_QueryEscape: "QueryUnescape (QueryEscape s) = Some s"
  by (induction s) (simp_all add: QueryEscape_def unescape_escape_byte)

lemma escape_byte_chars:
  assumes "x \<in> set (escape_byte c)"
  shows "x \<noteq> CHR ''&'' \<and> x \<noteq> CHR '';'' \<and> x \<noteq> CHR ''=''"
proof (cases "shouldEscape c")
  case False
  then show ?thesis
    using assms unreserved_not_special [OF False] by (simp add: escape_byte_def)
next
  case True
  have hi: "of_char c div 16 < (16 :: nat)"
    using of_char_bound [of c] by arith
  have lo: "of_char c mod 16 < (16 :: nat)"
    by simp
  show ?thesis
    using True assms hex_digit [OF hi] hex_digit [OF lo]
    by (auto simp: escape_byte_def split: if_splits)
qed

lemma QueryEscape_chars:
  "x \<in> set (QueryEscape s) \<Longrightarrow> x \<noteq> CHR ''&'' \<and> x \<noteq> CHR '';'' \<and> x \<noteq> CHR ''=''"
  using escape_byte_chars by (auto simp: QueryEscape_def)

lemma pieces_append:
  "sep \<notin> set p \<Longrightarrow> pieces sep acc (p @ rest) = pieces sep (rev p @ acc) rest"
  by (induction p arbitrary: acc) auto

lemma pieces_Join:
  assumes "\<forall>p \<in> set parts. sep \<notin> set p" and "parts \<noteq> []"
  shows "pieces sep [] (Join parts [sep]) = parts"
  using assms
proof (induction parts "[sep]" rule: Join.induct)
  case 1
  then show ?case by simp
next
  case (2 x)
  then show ?case
    using pieces_append [of sep x "[]" "[]"] by simp
next
  case (3 x y ys)
  then show ?case
    using pieces_append [of sep x "[]" "sep # Join (y # ys) [sep]"] by simp
qed

lemma parse_piece_pair:
  "parse_piece (QueryEscape k @ ''='' @ QueryEscape v) = [Inr (k, v)]"
proof -
  have k: "\<forall>x \<in> set (QueryEscape k). x \<noteq> CHR ''=''"
    using QueryEscape_chars by blast
  have semi: "CHR '';'' \<notin> set (QueryEscape k @ ''='' @ QueryEscape v)"
    using QueryEscape_chars by auto
  have cut: "Cut (QueryEscape k @ CHR ''='' # QueryEscape v) CHR ''=''
      = (QueryEscape k, QueryEscape v)"
    using k by (simp add: Cut_def takeWhile_append2 dropWhile_append2)
  show ?thesis
    using semi by (simp add: parse_piece_def cut QueryUnescape_QueryEscape)
qed

lemma Encode_grouped:
  "Encode vs =
     Join (map (\<lambda>kv. QueryEscape (fst kv) @ ''='' @ QueryEscape (snd kv)) (grouped vs)) ''&''"
  by (simp add: Encode_def grouped_def map_concat comp_def)

lemma parse_pieces_pairs:
  "concat (map parse_piece
      (map (\<lambda>kv. QueryEscape (fst kv) @ ''='' @ QueryEscape (snd kv)) pairs)) = map Inr pairs"
  by (induction pairs) (simp_all add: parse_piece_pair del: append.simps)

lemma ParseQuery_Encode: "ParseQuery (Encode vs) = (grouped vs, False)"
proof (cases "grouped vs = []")
  case True
  then show ?thesis
    by (simp add: Encode_grouped ParseQuery_def parse_piece_def)
next
  case False
  let ?parts = "map (\<lambda>kv. QueryEscape (fst kv) @ ''='' @ QueryEscape (snd kv)) (grouped vs)"
  have "\<forall>p \<in> set ?parts. CHR ''&'' \<notin> set p"
    using QueryEscape_chars by auto
  moreover from False have "?parts \<noteq> []"
    by simp
  ultimately have "pieces CHR ''&'' [] (Join ?parts ''&'') = ?parts"
    using pieces_Join [of ?parts "CHR ''&''"] by simp
  then have "concat (map parse_piece (pieces CHR ''&'' [] (Encode vs))) = map Inr (grouped vs)"
    by (simp only: Encode_grouped parse_pieces_pairs)
  then show ?thesis
    by (auto simp: ParseQuery_def Let_def concat_map_singleton comp_def)
qed

lemma values_of_Nil: "values_of [] k = []"
  by (simp add: values_of_def)

lemma values_of_append: "values_of (xs @ ys) k = values_of xs k @ values_of ys k"
  by (simp add: values_of_def)

lemma values_of_Pair: "values_of (map (Pair k') xs) k = (if k' = k then xs else [])"
  by (induction xs) (auto simp: values_of_def)

lemma values_of_by_key:
  "distinct keys \<Longrightarrow>
   values_of (concat (map (\<lambda>k'. map (Pair k') (f k')) keys)) k =
     (if k \<in> set keys then f k else [])"
  by (induction keys) (auto simp: values_of_append values_of_Pair values_of_Nil)

lemma values_of_no_key: "k \<notin> fst ` set vs \<Longrightarrow> values_of vs k = []"
  by (auto simp: values_of_def filter_empty_conv)

lemma values_of_grouped: "values_of (grouped vs) k = values_of vs k"
  by (simp add: grouped_def values_of_by_key values_of_no_key)

text \<open>
  Read back, the query string of the encoder gives exactly the pairs the encoder added,
  under the keys it added them with, and no error.
\<close>

lemma structToQuery_round_trip:
  "ParseQuery (structToQuery lib fs) = (grouped (query_values lib fs), False)"
  "values_of (fst (ParseQuery (structToQuery lib fs))) k = values_of (query_values lib fs) k"
  by (simp_all add: structToQuery_def ParseQuery_Encode values_of_grouped)

section \<open>Properties of the query encoder\<close>

lemma field_param_untagged [simp]: "field_param lib ('''', v) = []"
  by (simp add: field_param_def)

lemma query_values_SearchOptions:
  "query_values lib (SearchOptions_fields s) = query_values lib (SearchOptions_direct_fields s)"
  by (simp add: query_values_def SearchOptions_fields_def)

lemma SearchOptions_direct_fields_embedded [simp]:
  "SearchOptions_direct_fields (s\<lparr>MemoryOptions := m\<rparr>) = SearchOptions_direct_fields s"
  by (simp add: SearchOptions_direct_fields_def)

lemma query_values_keys_are_tags:
  "fst ` set (query_values lib fs) \<subseteq> fst ` set fs"
proof
  fix k assume "k \<in> fst ` set (query_values lib fs)"
  then obtain kv where kv: "kv \<in> set (query_values lib fs)" and k: "k = fst kv"
    by auto
  from query_values_key [OF kv] obtain f where "f \<in> set fs" "kv \<in> set (field_param lib f)"
    by auto
  with field_param_key [of kv lib f] k show "k \<in> fst ` set fs"
    by auto
qed

lemma SearchOptions_direct_tags:
  "fst ` set (SearchOptions_direct_fields s) =
     {''enable_graph,omitempty'', ''threshold,omitempty'', ''top_k,omitempty'',
      ''only_metadata_based_search,omitempty'', ''keyword_search,omitempty'',
      ''fields,omitempty'', ''categories,omitempty'', ''rerank,omitempty'',
      ''version,omitempty''}"
  by (simp add: SearchOptions_direct_fields_def)

lemma SearchOptions_query_keys:
  "fst ` set (query_values lib (SearchOptions_fields s)) \<subseteq>
     {''enable_graph,omitempty'', ''threshold,omitempty'', ''top_k,omitempty'',
      ''only_metadata_based_search,omitempty'', ''keyword_search,omitempty'',
      ''fields,omitempty'', ''categories,omitempty'', ''rerank,omitempty'',
      ''version,omitempty''}"
proof -
  have "fst ` set (query_values lib (SearchOptions_direct_fields s))
      \<subseteq> fst ` set (SearchOptions_direct_fields s)"
    by (rule query_values_keys_are_tags)
  then show ?thesis
    unfolding SearchOptions_direct_tags query_values_SearchOptions .
qed

lemma embedded_tags:
  assumes "f \<in> set (MemoryOptions_fields m)"
    and "fst f \<noteq> ''enable_graph,omitempty''" and "fst f \<noteq> ''version,omitempty''"
  shows "fst f \<notin>
     {''enable_graph,omitempty'', ''threshold,omitempty'', ''top_k,omitempty'',
      ''only_metadata_based_search,omitempty'', ''keyword_search,omitempty'',
      ''fields,omitempty'', ''categories,omitempty'', ''rerank,omitempty'',
      ''version,omitempty''}"
  using assms
  unfolding MemoryOptions_fields_def
  apply simp
  apply (elim disjE)
  apply simp_all
  done

text \<open>
  Claim C10.  The query string of a \<^verbatim>\<open>SearchOptions\<close> does not depend on the embedded
  \<^verbatim>\<open>MemoryOptions\<close>: whatever its fields hold, the encoder adds the pairs of the nine
  fields declared on \<^verbatim>\<open>SearchOptions\<close> itself and no other, so no key of the query is
  the tag of a field of the embedded struct (the two tags that \<^verbatim>\<open>SearchOptions\<close>
  declares again, for its own fields, apart).
\<close>

theorem SearchOptions_ToQuery_skips_embedded:
  "SearchOptions_ToQuery lib (s\<lparr>MemoryOptions := m\<rparr>) = SearchOptions_ToQuery lib s
   \<and> query_values lib (SearchOptions_fields s) = query_values lib (SearchOptions_direct_fields s)
   \<and> fst ` set (query_values lib (SearchOptions_fields s)) \<subseteq>
       {''enable_graph,omitempty'', ''threshold,omitempty'', ''top_k,omitempty'',
        ''only_metadata_based_search,omitempty'', ''keyword_search,omitempty'',
        ''fields,omitempty'', ''categories,omitempty'', ''rerank,omitempty'',
        ''version,omitempty''}
   \<and> (\<forall>f \<in> set (MemoryOptions_fields (MemoryOptions s)).
         fst f \<noteq> ''enable_graph,omitempty'' \<and> fst f \<noteq> ''version,omitempty'' \<longrightarrow>
         fst f \<notin> fst ` set (query_values lib (SearchOptions_fields s)))"
proof (intro conjI ballI impI)
  show "SearchOptions_ToQuery lib (s\<lparr>MemoryOptions := m\<rparr>) = SearchOptions_ToQuery lib s"
    by (simp add: SearchOptions_ToQuery_def structToQuery_def query_values_SearchOptions)
next
  show "query_values lib (SearchOptions_fields s) =
      query_values lib (SearchOptions_direct_fields s)"
    by (rule query_values_SearchOptions)
next
  show "fst ` set (query_values lib (SearchOptions_fields s)) \<subseteq>
       {''enable_graph,omitempty'', ''threshold,omitempty'', ''top_k,omitempty'',
        ''only_metadata_based_search,omitempty'', ''keyword_search,omitempty'',
        ''fields,omitempty'', ''categories,omitempty'', ''rerank,omitempty'',
        ''version,omitempty''}"
    by (rule SearchOptions_query_keys)
next
  fix f
  assume "f \<in> set (MemoryOptions_fields (MemoryOptions s))"
    and "fst f \<noteq> ''enable_graph,omitempty'' \<and> fst f \<noteq> ''version,omitempty''"
  then show "fst f \<notin> fst ` set (query_values lib (SearchOptions_fields s))"
    using embedded_tags [of f "MemoryOptions s"] SearchOptions_query_keys [of lib s]
    by blast
qed

theorem SearchOptions_ToQuery_skips_embedded_witness:
  "SearchOptions_ToQuery plain_lib
       (SearchOptions_zero\<lparr>MemoryOptions := MemoryOptions_zero\<lparr>UserID := ''u-1'',
           MemoryOptions.Page := 3\<rparr>, TopK := 5\<rparr>)
     = ''top_k%2Comitempty=5''
   \<and> (''user_id,omitempty'', RString ''u-1'') \<in> set (MemoryOptions_fields
        (MemoryOptions (SearchOptions_zero\<lparr>MemoryOptions := MemoryOptions_zero\<lparr>UserID := ''u-1'',
           MemoryOptions.Page := 3\<rparr>, TopK := 5\<rparr>)))
   \<and> ''user_id,omitempty'' \<notin> fst ` set (query_values plain_lib (SearchOptions_fields
        (SearchOptions_zero\<lparr>MemoryOptions := MemoryOptions_zero\<lparr>UserID := ''u-1'',
           MemoryOptions.Page := 3\<rparr>, TopK := 5\<rparr>)))"
  using SearchOptions_ToQuery_skips_embedded [where lib = plain_lib
      and s = "SearchOptions_zero\<lparr>MemoryOptions := MemoryOptions_zero\<lparr>UserID := ''u-1'',
           MemoryOptions.Page := 3\<rparr>, TopK := 5\<rparr>"
      and m = MemoryOptions_zero]
  by (simp add: SearchOptions_ToQuery_def structToQuery_def query_values_def
      SearchOptions_fields_def SearchOptions_direct_fields_def SearchOptions_zero_def
      MemoryOptions_fields_def MemoryOptions_zero_def strings_value_def field_param_def
      float_is_zero_def Encode_def values_of_def QueryEscape_def escape_byte_def
      shouldEscape_def alnum_def upperhex_def FormatInt_def FormatUint.simps digit_def)

text \<open>
  Claim C7 fails on the code.  The encoder passes the whole tag to \<^verbatim>\<open>values.Add\<close>,
  options included: the user identifier goes out under \<^verbatim>\<open>user_id,omitempty\<close>
  (\<^verbatim>\<open>user_id%2Comitempty\<close> in the query of \<^verbatim>\<open>DeleteAll\<close>), whereas its wire name is
  \<^verbatim>\<open>user_id\<close>.
\<close>

theorem query_key_is_whole_tag:
  "query_values plain_lib (MemoryOptions_fields (MemoryOptions_zero\<lparr>UserID := ''u-1''\<rparr>))
     = [(''user_id,omitempty'', ''u-1'')]
   \<and> wire_name ''user_id,omitempty'' = ''user_id''
   \<and> MemoryOptions_ToQuery plain_lib (MemoryOptions_zero\<lparr>UserID := ''u-1''\<rparr>)
     = ''user_id%2Comitempty=u-1''
   \<and> map URL (fst (DeleteAll test_client (answering \<lparr>StatusCode = 200, ResponseBody = ''''\<rparr>)
        plain_lib (MemoryOptions_zero\<lparr>UserID := ''u-1''\<rparr>)))
     = [''https://api.mem0.ai/v1/memories/?user_id%2Comitempty=u-1'']"
  by (simp add: DeleteAll_def doRequest_def answered_def answering_def new_request_def
      test_client_def client_of_def Let_def wire_name_def
      MemoryOptions_ToQuery_def structToQuery_def query_values_def
      MemoryOptions_fields_def MemoryOptions_zero_def field_param_def
      Encode_def values_of_def QueryEscape_def escape_byte_def
      shouldEscape_def alnum_def upperhex_def)

text \<open>
  Claim C6 fails on the code.  The fully populated \<^verbatim>\<open>ProjectOptions\<close> with the fields
  \<^verbatim>\<open>name\<close> and \<^verbatim>\<open>id\<close> is encoded as \<^verbatim>\<open>fields%2Comitempty=name%2Cid\<close>; read back, the
  query has the pair under the key \<^verbatim>\<open>fields,omitempty\<close> and nothing under the wire name
  \<^verbatim>\<open>fields\<close>.  What the round trip does give back are the pairs as the encoder added
  them (\<open>structToQuery_round_trip\<close>).
\<close>

theorem query_round_trip_loses_wire_name:
  "ProjectOptions_ToQuery plain_lib \<lparr>ProjectOptions.Fields = Some [''name'', ''id'']\<rparr>
     = ''fields%2Comitempty=name%2Cid''
   \<and> ParseQuery ''fields%2Comitempty=name%2Cid''
     = ([(''fields,omitempty'', ''name,id'')], False)
   \<and> values_of [(''fields,omitempty'', ''name,id'')] ''fields'' = []
   \<and> wire_name ''fields,omitempty'' = ''fields''"
proof -
  have "ParseQuery ''fields%2Comitempty=name%2Cid''
      = ([(''fields,omitempty'', ''name,id'')], False)"
    by code_simp
  then show ?thesis
    by (simp add: ProjectOptions_ToQuery_def structToQuery_def query_values_def
        ProjectOptions_fields_def strings_value_def field_param_def Encode_def values_of_def
        QueryEscape_def escape_byte_def shouldEscape_def alnum_def upperhex_def wire_name_def)
qed

section \<open>Properties of the error contract\<close>

lemma marshalable_empty: "marshalable (AMap [])"
  by simp

lemma marshalable_update:
  "marshalable (AMap m) \<Longrightarrow> marshalable v \<Longrightarrow> marshalable (AMap (AList.update k v m))"
  by (induction m) auto

lemma marshalable_delete:
  "marshalable (AMap m) \<Longrightarrow> marshalable (AMap (AList.delete k m))"
  by (induction m) auto

lemma marshalable_append:
  "marshalable (AMap (xs @ ys)) \<longleftrightarrow> marshalable (AMap xs) \<and> marshalable (AMap ys)"
  by simp

lemma marshalable_decoded:
  "finite_floats lib \<Longrightarrow> marshalable v \<Longrightarrow> marshalable (decoded lib v)"
  by (induction v)
    (auto simp: finite_floats_def list_all_iff Message_json_def)

lemma marshalable_merge:
  "marshalable (AMap optionsMap) \<Longrightarrow> marshalable (AMap payload) \<Longrightarrow>
   marshalable (AMap (merge optionsMap payload))"
proof (induction optionsMap arbitrary: payload)
  case Nil
  then show ?case by (simp add: merge_def)
next
  case (Cons kv optionsMap)
  have step: "merge (kv # optionsMap) payload =
      merge optionsMap (if snd kv \<noteq> ANil then AList.update (fst kv) (snd kv) payload
                        else payload)"
    by (simp add: merge_def)
  from Cons.prems have "marshalable (AMap optionsMap)" and "marshalable (snd kv)"
    by simp_all
  with Cons.prems(2) show ?case
    unfolding step
    by (intro Cons.IH) (simp_all add: marshalable_update del: marshalable.simps(7))
qed

lemma marshalable_json_entries:
  "marshalable (AMap (json_string name s))"
  "marshalable (AMap (json_bool name b))"
  "finite_floats lib \<Longrightarrow> marshalable (AMap (json_int lib name i))"
  "float_finite x \<Longrightarrow> marshalable (AMap (json_float name x))"
  "marshalable (AMap (json_strings name xs))"
  "marshalable (AMap (json_messages name ms))"
  "marshalable (AMap (json_categories name cs))"
  "finite_floats lib \<Longrightarrow> map_marshalable m \<Longrightarrow> marshalable (AMap (json_map lib name m))"
  using marshalable_decoded [of lib]
  by (auto simp: json_string_def json_bool_def json_int_def json_float_def json_strings_def
      json_messages_def json_categories_def json_map_def map_marshalable_def finite_floats_def
      list_all_iff Message_json_def CustomCategory_json_def
      simp del: decoded.simps split: option.splits)

lemma marshalable_MemoryOptions_entries:
  assumes "finite_floats lib" and "map_marshalable (Metadata opts)"
    and "map_marshalable (MemoryOptions.Filters opts)"
  shows "marshalable (AMap (MemoryOptions_entries lib shadowed opts))"
  unfolding MemoryOptions_entries_def marshalable_append
  using assms by (simp add: marshalable_json_entries marshalable_empty del: marshalable.simps(7))

lemma marshalable_entry:
  "marshalable (AMap m) \<Longrightarrow> map_of m k = Some v \<Longrightarrow> marshalable v"
  by (induction m) (auto split: if_splits)

lemma marshalable_set_default:
  "marshalable (AMap m) \<Longrightarrow> marshalable (AMap (set_default k m))"
  by (simp add: set_default_def marshalable_update del: marshalable.simps(7))

lemma marshalable_fixAPIV2Filters:
  "map_marshalable filters \<Longrightarrow> marshalable (AMap (fixAPIV2Filters filters))"
  unfolding fixAPIV2Filters_def Let_def
  by (intro marshalable_set_default marshalable_delete)
    (simp add: map_marshalable_def split: option.splits)

lemma preparePayload_marshalable:
  assumes "finite_floats lib" and "preparePayload c lib messages options = Inr payload"
  shows "marshalable (AMap payload)"
proof (cases "messages_list messages")
  case None
  with assms(2) show ?thesis
    by (simp add: preparePayload_def)
next
  case (Some msgs)
  from assms(2) have m: "map_marshalable (Metadata options)"
      "map_marshalable (MemoryOptions.Filters options)"
    by (simp_all add: preparePayload_accepted [OF Some] split: if_splits)
  then have "marshalable (AMap (MemoryOptions_entries lib False (with_org_project c options)))"
    using assms(1) by (intro marshalable_MemoryOptions_entries) simp_all
  then have "marshalable (AMap (merge (MemoryOptions_entries lib False
      (with_org_project c options)) [(''messages'', AMessages msgs)]))"
    by (intro marshalable_merge) simp_all
  with assms(2) m show ?thesis
    by (auto simp: preparePayload_accepted [OF Some] Let_def marshalable_update
        simp del: marshalable.simps(7) split: if_splits)
qed

lemma Search_payload_marshalable:
  assumes "finite_floats lib" and "Search_payload c lib query options = Inr payload"
  shows "marshalable (AMap payload)"
proof -
  define opts where "opts = (case options of None \<Rightarrow> SearchOptions_zero | Some s \<Rightarrow> s)"
  define opts2 where "opts2 = opts\<lparr>MemoryOptions := with_org_project c (MemoryOptions opts)\<rparr>"
  from assms(2) obtain optionsMap where om: "SearchOptions_optionsMap lib opts2 = Inr optionsMap"
    by (auto simp: Search_payload_def Let_def opts_def opts2_def split: sum.splits)
  then have ok: "map_marshalable (Metadata (MemoryOptions opts2))"
      "map_marshalable (MemoryOptions.Filters (MemoryOptions opts2))"
      "float_finite (Threshold opts2)"
    and eq: "optionsMap =
      MemoryOptions_entries lib True (MemoryOptions opts2)
      @ json_bool ''enable_graph'' (SearchOptions.EnableGraph opts2)
      @ json_float ''threshold'' (Threshold opts2)
      @ json_int lib ''top_k'' (TopK opts2)
      @ json_bool ''only_metadata_based_search'' (OnlyMetadataBasedSearch opts2)
      @ json_bool ''keyword_search'' (KeywordSearch opts2)
      @ json_strings ''fields'' (SearchOptions.Fields opts2)
      @ json_strings ''categories'' (Categories opts2)
      @ json_bool ''rerank'' (Rerank opts2)
      @ json_string ''version'' (SearchOptions.Version opts2)"
    by (simp_all add: SearchOptions_optionsMap_def split: if_splits)
  have "marshalable (AMap optionsMap)"
    unfolding eq marshalable_append
    using assms(1) ok
    by (simp add: marshalable_json_entries marshalable_MemoryOptions_entries
        del: marshalable.simps(7))
  then have p1: "marshalable (AMap (merge optionsMap [(''query'', AString query)]))"
    by (intro marshalable_merge) simp_all
  have fixed: "marshalable (AMap (AList.update ''filter_memories'' (ABool True)
        (AList.update ''filters'' (AMap (fixAPIV2Filters (Some m)))
           (merge optionsMap [(''query'', AString query)]))))"
    if "map_of (merge optionsMap [(''query'', AString query)]) ''filters'' = Some (AMap m)" for m
  proof -
    from marshalable_entry [OF p1 that] have "map_marshalable (Some m)"
      by (simp add: map_marshalable_def)
    then have "marshalable (AMap (fixAPIV2Filters (Some m)))"
      by (rule marshalable_fixAPIV2Filters)
    with p1 show ?thesis
      by (intro marshalable_update) simp_all
  qed
  from assms(2) om show ?thesis
    unfolding Search_payload_def Let_def opts_def [symmetric] opts2_def [symmetric]
    using p1 fixed
    by (auto simp del: marshalable.simps(7) split: option.splits if_splits any.splits)
qed

lemma GetAll_request_marshalable:
  assumes "case options of None \<Rightarrow> True
     | Some opts \<Rightarrow> map_marshalable (MemoryOptions.Filters (MemoryOptions opts))"
  shows "body_marshalable (BodyGetAll (GetAll_request c options))"
proof (cases options)
  case None
  then show ?thesis
    by (simp add: body_marshalable_def GetAll_request_def getAllRequest_zero_def
        map_marshalable_def)
next
  case (Some opts)
  with assms have "map_marshalable (MemoryOptions.Filters (MemoryOptions opts))"
    by simp
  then have "marshalable (AMap (fixAPIV2Filters (MemoryOptions.Filters (MemoryOptions opts))))"
    and "marshalable (AMap (case MemoryOptions.Filters (MemoryOptions opts) of
                   None \<Rightarrow> [] | Some m \<Rightarrow> m))"
    by (simp_all add: marshalable_fixAPIV2Filters map_marshalable_def marshalable_empty
        del: marshalable.simps(7) split: option.splits)
  then show ?thesis
    unfolding Some body_marshalable_def
    by (simp add: GetAll_request_filters map_marshalable_def del: marshalable.simps(7))
qed

lemma turned_down_decode:
  assumes "turned_down net (new_request c method path body) resp"
    and "case body of None \<Rightarrow> True | Some b \<Rightarrow> body_marshalable b"
  shows "answered (doRequest c net method path body) (decode_response unmarshal) =
     refused (new_request c method path body) resp"
  using assms
  by (auto simp: turned_down_def new_request_def answered_def doRequest_def decode_response_def
      refused_def Let_def split: option.splits)

lemma turned_down_check:
  assumes "turned_down net (new_request c method path body) resp"
    and "case body of None \<Rightarrow> True | Some b \<Rightarrow> body_marshalable b"
  shows "answered (doRequest c net method path body) check_response =
     refused (new_request c method path body) resp"
  using assms
  by (auto simp: turned_down_def new_request_def answered_def doRequest_def check_response_def
      refused_def Let_def split: option.splits)

lemma turned_down_ping:
  assumes "turned_down net
      \<lparr>Method = ''GET'', URL = host c @ ''/v1/ping/'',
       Header = [(''Authorization'', ''Token '' @ apiKey c)], Body = None\<rparr> resp"
  shows "ping c net unmarshal =
     refused \<lparr>Method = ''GET'', URL = host c @ ''/v1/ping/'',
              Header = [(''Authorization'', ''Token '' @ apiKey c)], Body = None\<rparr> resp"
  using assms
  by (simp add: turned_down_def ping_def refused_def Let_def)

lemma turned_down_NewMemoryClient:
  "APIKey options \<noteq> ''''
   \<and> (OrganizationName options = '''') = (ClientOptions.ProjectName options = '''')
   \<and> (OrganizationID options = '''') = (ClientOptions.ProjectID options = '''')
   \<and> turned_down net
        \<lparr>Method = ''GET'', URL = host (client_of options) @ ''/v1/ping/'',
         Header = [(''Authorization'', ''Token '' @ APIKey options)], Body = None\<rparr> resp
   \<longrightarrow> NewMemoryClient options net unmarshal =
        refused \<lparr>Method = ''GET'', URL = host (client_of options) @ ''/v1/ping/'',
                 Header = [(''Authorization'', ''Token '' @ APIKey options)], Body = None\<rparr>
          resp"
proof
  assume a: "APIKey options \<noteq> ''''
   \<and> (OrganizationName options = '''') = (ClientOptions.ProjectName options = '''')
   \<and> (OrganizationID options = '''') = (ClientOptions.ProjectID options = '''')
   \<and> turned_down net
        \<lparr>Method = ''GET'', URL = host (client_of options) @ ''/v1/ping/'',
         Header = [(''Authorization'', ''Token '' @ APIKey options)], Body = None\<rparr> resp"
  then have "(organizationName (client_of options) = '''')
      = (projectName (client_of options) = '''')"
    and "(organizationID (client_of options) = '''') = (projectID (client_of options) = '''')"
    by (simp_all add: client_of_def)
  from validateOrgProject_ok [OF this] a
  have "NewMemoryClient options net unmarshal = ping (client_of options) net unmarshal"
    by (simp add: NewMemoryClient_with_key)
  moreover have "apiKey (client_of options) = APIKey options"
    by (simp add: client_of_def)
  ultimately show "NewMemoryClient options net unmarshal =
        refused \<lparr>Method = ''GET'', URL = host (client_of options) @ ''/v1/ping/'',
                 Header = [(''Authorization'', ''Token '' @ APIKey options)], Body = None\<rparr>
          resp"
    using a turned_down_ping [of net "client_of options" resp unmarshal] by simp
qed

lemma turned_down_AddAsync:
  "finite_floats lib \<and> preparePayload c lib messages options = Inr payload
   \<and> turned_down net (new_request c ''POST'' ''/v1/memories/'' (Some (BodyMap payload))) resp
   \<longrightarrow> AddAsync c net lib unmarshal messages options =
        refused (new_request c ''POST'' ''/v1/memories/'' (Some (BodyMap payload))) resp"
  using preparePayload_marshalable [of lib c messages options payload]
  by (simp add: AddAsync_def turned_down_decode body_marshalable_def
      del: marshalable.simps(7))

lemma turned_down_Add:
  "finite_floats lib \<and> preparePayload c lib messages options = Inr payload
   \<and> turned_down net (new_request c ''POST'' ''/v1/memories/''
        (Some (BodyMap (AList.update ''async_mode'' (ABool False) payload)))) resp
   \<longrightarrow> Add c net lib unmarshal messages options =
        refused (new_request c ''POST'' ''/v1/memories/''
          (Some (BodyMap (AList.update ''async_mode'' (ABool False) payload)))) resp"
  using preparePayload_marshalable [of lib c messages options payload]
  by (simp add: Add_def Let_def turned_down_decode body_marshalable_def marshalable_update
      del: marshalable.simps(7))

lemma turned_down_GetAll:
  "(case options of None \<Rightarrow> True
    | Some opts \<Rightarrow> map_marshalable (MemoryOptions.Filters (MemoryOptions opts)))
   \<and> turned_down net (new_request c ''POST'' ''/v2/memories/''
        (Some (BodyGetAll (GetAll_request c options)))) resp
   \<longrightarrow> GetAll c net unmarshal options =
        refused (new_request c ''POST'' ''/v2/memories/''
          (Some (BodyGetAll (GetAll_request c options)))) resp"
  using GetAll_request_marshalable [of options c]
  by (simp add: GetAll_def turned_down_decode)

lemma turned_down_Search:
  "finite_floats lib \<and> Search_payload c lib query options = Inr payload
   \<and> turned_down net (new_request c ''POST'' ''/v2/memories/search/''
        (Some (BodyMap payload))) resp
   \<longrightarrow> Search c net lib unmarshal query options =
        refused (new_request c ''POST'' ''/v2/memories/search/'' (Some (BodyMap payload))) resp"
  using Search_payload_marshalable [of lib c query options payload]
  by (simp add: Search_def turned_down_decode body_marshalable_def
      del: marshalable.simps(7))

lemma turned_down_GetEvents:
  "turned_down net (new_request c ''GET''
        (if cursor \<noteq> '''' then cursor else ''/v1/events/'') None) resp
   \<longrightarrow> GetEvents c net unmarshal cursor =
        refused (new_request c ''GET''
          (if cursor \<noteq> '''' then cursor else ''/v1/events/'') None) resp"
  by (auto simp: GetEvents_def turned_down_def new_request_def doRequest_def
      decode_response_def refused_def Let_def)

lemma request_failed_message:
  "\<exists>msg. request_failed resp = APIError msg
     \<and> sublist (FormatInt (StatusCode resp)) msg \<and> sublist (ResponseBody resp) msg"
proof -
  let ?p = "''API request failed with status ''"
  let ?n = "FormatInt (StatusCode resp)"
  let ?b = "ResponseBody resp"
  have "sublist ?n (?p @ ?n @ ('': '' @ ?b))"
    by (rule sublist_appendI)
  moreover have "sublist ?b ((?p @ ?n @ '': '') @ ?b @ [])"
    by (rule sublist_appendI)
  ultimately show ?thesis
    by (simp add: request_failed_def)
qed

lemma request_failed_429:
  "request_failed \<lparr>StatusCode = 429, ResponseBody = ''rate limited''\<rparr> =
     APIError ''API request failed with status 429: rate limited''"
  by (simp add: request_failed_def FormatInt_def FormatUint.simps digit_def)

lemma snd_refused: "snd (refused req resp) = Inl (request_failed resp)"
  by (simp add: refused_def)

lemma rate_limited_message:
  "sublist ''429'' ''API request failed with status 429: rate limited''
   \<and> sublist ''rate limited'' ''API request failed with status 429: rate limited''"
proof -
  have "sublist ''429'' (''API request failed with status '' @ ''429'' @ '': rate limited'')"
    by (rule sublist_appendI)
  moreover have "sublist ''rate limited''
      (''API request failed with status 429: '' @ ''rate limited'' @ [])"
    by (rule sublist_appendI)
  ultimately show ?thesis
    by simp
qed

text \<open>
  Claim C3.  Whenever the transport accepts the request of an operation and answers it
  with a status other than 200 (so in particular with any status outside the success
  range), the operation hands over exactly that request and returns the \<^verbatim>\<open>APIError\<close>
  of the response, whose message holds the decimal status code and the response body
  verbatim; for status 429 and body \<^verbatim>\<open>rate limited\<close> the message holds \<^verbatim>\<open>429\<close> and
  \<^verbatim>\<open>rate limited\<close>.  The request exists once the local steps before it have
  succeeded: the checks of the constructor, \<^verbatim>\<open>preparePayload\<close>, the payload of
  \<^verbatim>\<open>Search\<close>, and the encoding of a body the caller supplies.
\<close>

theorem non_success_is_APIError:
  "(APIKey options \<noteq> ''''
     \<and> (OrganizationName options = '''') = (ClientOptions.ProjectName options = '''')
     \<and> (OrganizationID options = '''') = (ClientOptions.ProjectID options = '''')
     \<and> turned_down net
          \<lparr>Method = ''GET'', URL = host (client_of options) @ ''/v1/ping/'',
           Header = [(''Authorization'', ''Token '' @ APIKey options)], Body = None\<rparr> resp
     \<longrightarrow> NewMemoryClient options net unmarshal_ping =
          refused \<lparr>Method = ''GET'', URL = host (client_of options) @ ''/v1/ping/'',
                   Header = [(''Authorization'', ''Token '' @ APIKey options)], Body = None\<rparr>
            resp)
   \<and> (finite_floats lib \<and> preparePayload c lib messages moptions = Inr payload
     \<and> turned_down net (new_request c ''POST'' ''/v1/memories/'' (Some (BodyMap payload))) resp
     \<longrightarrow> AddAsync c net lib unmarshal messages moptions =
          refused (new_request c ''POST'' ''/v1/memories/'' (Some (BodyMap payload))) resp)
   \<and> (finite_floats lib \<and> preparePayload c lib messages moptions = Inr payload
     \<and> turned_down net (new_request c ''POST'' ''/v1/memories/''
          (Some (BodyMap (AList.update ''async_mode'' (ABool False) payload)))) resp
     \<longrightarrow> Add c net lib unmarshal messages moptions =
          refused (new_request c ''POST'' ''/v1/memories/''
            (Some (BodyMap (AList.update ''async_mode'' (ABool False) payload)))) resp)
   \<and> (turned_down net (new_request c ''PUT'' (''/v1/memories/'' @ ident @ ''/'')
          (Some (BodyMap [(''text'', AString message)]))) resp
     \<longrightarrow> Update c net unmarshal ident message =
          refused (new_request c ''PUT'' (''/v1/memories/'' @ ident @ ''/'')
            (Some (BodyMap [(''text'', AString message)]))) resp)
   \<and> (turned_down net (new_request c ''GET'' (''/v1/memories/'' @ ident @ ''/'') None) resp
     \<longrightarrow> Get c net unmarshal ident =
          refused (new_request c ''GET'' (''/v1/memories/'' @ ident @ ''/'') None) resp)
   \<and> ((case soptions of None \<Rightarrow> True
        | Some opts \<Rightarrow> map_marshalable (MemoryOptions.Filters (MemoryOptions opts)))
     \<and> turned_down net (new_request c ''POST'' ''/v2/memories/''
          (Some (BodyGetAll (GetAll_request c soptions)))) resp
     \<longrightarrow> GetAll c net unmarshal soptions =
          refused (new_request c ''POST'' ''/v2/memories/''
            (Some (BodyGetAll (GetAll_request c soptions)))) resp)
   \<and> (finite_floats lib \<and> Search_payload c lib query soptions = Inr spayload
     \<and> turned_down net (new_request c ''POST'' ''/v2/memories/search/''
          (Some (BodyMap spayload))) resp
     \<longrightarrow> Search c net lib unmarshal query soptions =
          refused (new_request c ''POST'' ''/v2/memories/search/'' (Some (BodyMap spayload)))
            resp)
   \<and> (turned_down net (new_request c ''DELETE'' (''/v1/memories/'' @ ident @ ''/'') None) resp
     \<longrightarrow> Delete c net ident =
          refused (new_request c ''DELETE'' (''/v1/memories/'' @ ident @ ''/'') None) resp)
   \<and> (turned_down net (new_request c ''DELETE''
          (if MemoryOptions_ToQuery lib moptions \<noteq> ''''
           then ''/v1/memories/'' @ ''?'' @ MemoryOptions_ToQuery lib moptions
           else ''/v1/memories/'') None) resp
     \<longrightarrow> DeleteAll c net lib moptions =
          refused (new_request c ''DELETE''
            (if MemoryOptions_ToQuery lib moptions \<noteq> ''''
             then ''/v1/memories/'' @ ''?'' @ MemoryOptions_ToQuery lib moptions
             else ''/v1/memories/'') None) resp)
   \<and> (turned_down net (new_request c ''GET'' (''/v1/memories/'' @ ident @ ''/history/'') None)
          resp
     \<longrightarrow> History c net unmarshal ident =
          refused (new_request c ''GET'' (''/v1/memories/'' @ ident @ ''/history/'') None) resp)
   \<and> (turned_down net (new_request c ''GET'' ''/v1/users/'' None) resp
     \<longrightarrow> Users c net unmarshal = refused (new_request c ''GET'' ''/v1/users/'' None) resp)
   \<and> (turned_down net (new_request c ''DELETE'' (''/v1/users/'' @ ident @ ''/'') None) resp
     \<longrightarrow> DeleteUser c net ident =
          refused (new_request c ''DELETE'' (''/v1/users/'' @ ident @ ''/'') None) resp)
   \<and> (turned_down net (new_request c ''DELETE'' ''/v1/users/'' None) resp
     \<longrightarrow> DeleteUsers c net = refused (new_request c ''DELETE'' ''/v1/users/'' None) resp)
   \<and> (marshalable body
     \<and> turned_down net (new_request c ''PUT'' ''/v1/memories/batch/'' (Some (BodyValue body)))
          resp
     \<longrightarrow> BatchUpdate c net body =
          refused (new_request c ''PUT'' ''/v1/memories/batch/'' (Some (BodyValue body))) resp)
   \<and> (turned_down net (new_request c ''DELETE'' ''/v1/memories/batch/''
          (Some (BodyValue (ASlice (map AString idents))))) resp
     \<longrightarrow> BatchDelete c net idents =
          refused (new_request c ''DELETE'' ''/v1/memories/batch/''
            (Some (BodyValue (ASlice (map AString idents))))) resp)
   \<and> (turned_down net (new_request c ''GET''
          (if ProjectOptions_ToQuery lib poptions \<noteq> ''''
           then ''/v1/project/'' @ ''?'' @ ProjectOptions_ToQuery lib poptions
           else ''/v1/project/'') None) resp
     \<longrightarrow> GetProject c net lib unmarshal poptions =
          refused (new_request c ''GET''
            (if ProjectOptions_ToQuery lib poptions \<noteq> ''''
             then ''/v1/project/'' @ ''?'' @ ProjectOptions_ToQuery lib poptions
             else ''/v1/project/'') None) resp)
   \<and> (marshalable body
     \<and> turned_down net (new_request c ''PUT'' ''/v1/project/'' (Some (BodyValue body))) resp
     \<longrightarrow> UpdateProject c net body =
          refused (new_request c ''PUT'' ''/v1/project/'' (Some (BodyValue body))) resp)
   \<and> (turned_down net (new_request c ''GET''
          (if ident \<noteq> '''' then ''/v1/webhooks/'' @ ''?project_id='' @ ident
           else ''/v1/webhooks/'') None) resp
     \<longrightarrow> GetWebhooks c net unmarshal ident =
          refused (new_request c ''GET''
            (if ident \<noteq> '''' then ''/v1/webhooks/'' @ ''?project_id='' @ ident
             else ''/v1/webhooks/'') None) resp)
   \<and> (marshalable body
     \<and> turned_down net (new_request c ''POST'' ''/v1/webhooks/'' (Some (BodyValue body))) resp
     \<longrightarrow> CreateWebhook c net unmarshal body =
          refused (new_request c ''POST'' ''/v1/webhooks/'' (Some (BodyValue body))) resp)
   \<and> (marshalable body
     \<and> turned_down net (new_request c ''PUT'' ''/v1/webhooks/'' (Some (BodyValue body))) resp
     \<longrightarrow> UpdateWebhook c net body =
          refused (new_request c ''PUT'' ''/v1/webhooks/'' (Some (BodyValue body))) resp)
   \<and> (turned_down net (new_request c ''DELETE'' (''/v1/webhooks/'' @ ident @ ''/'') None) resp
     \<longrightarrow> DeleteWebhook c net ident =
          refused (new_request c ''DELETE'' (''/v1/webhooks/'' @ ident @ ''/'') None) resp)
   \<and> (marshalable body
     \<and> turned_down net (new_request c ''POST'' ''/v1/feedback/'' (Some (BodyValue body))) resp
     \<longrightarrow> Feedback c net body =
          refused (new_request c ''POST'' ''/v1/feedback/'' (Some (BodyValue body))) resp)
   \<and> (turned_down net (new_request c ''GET'' (''/v1/event/'' @ ident @ ''/'') None) resp
     \<longrightarrow> GetEvent c net unmarshal ident =
          refused (new_request c ''GET'' (''/v1/event/'' @ ident @ ''/'') None) resp)
   \<and> (turned_down net (new_request c ''GET''
          (if ident \<noteq> '''' then ident else ''/v1/events/'') None) resp
     \<longrightarrow> GetEvents c net unmarshal ident =
          refused (new_request c ''GET''
            (if ident \<noteq> '''' then ident else ''/v1/events/'') None) resp)
   \<and> (\<forall>req. snd (refused req resp :: unit call) = Inl (request_failed resp))
   \<and> (\<exists>msg. request_failed resp = APIError msg
         \<and> sublist (FormatInt (StatusCode resp)) msg \<and> sublist (ResponseBody resp) msg)
   \<and> request_failed \<lparr>StatusCode = 429, ResponseBody = ''rate limited''\<rparr> =
         APIError ''API request failed with status 429: rate limited''
   \<and> sublist ''429'' ''API request failed with status 429: rate limited''
   \<and> sublist ''rate limited'' ''API request failed with status 429: rate limited''"
proof (intro conjI)
  show "APIKey options \<noteq> ''''
     \<and> (OrganizationName options = '''') = (ClientOptions.ProjectName options = '''')
     \<and> (OrganizationID options = '''') = (ClientOptions.ProjectID options = '''')
     \<and> turned_down net
          \<lparr>Method = ''GET'', URL = host (client_of options) @ ''/v1/ping/'',
           Header = [(''Authorization'', ''Token '' @ APIKey options)], Body = None\<rparr> resp
     \<longrightarrow> NewMemoryClient options net unmarshal_ping =
          refused \<lparr>Method = ''GET'', URL = host (client_of options) @ ''/v1/ping/'',
                   Header = [(''Authorization'', ''Token '' @ APIKey options)], Body = None\<rparr>
            resp"
    by (rule turned_down_NewMemoryClient)
qed (simp_all add: turned_down_AddAsync turned_down_Add turned_down_GetAll turned_down_Search
    turned_down_GetEvents turned_down_decode turned_down_check request_failed_message
    request_failed_429 rate_limited_message body_marshalable_def snd_refused
    Update_def Get_def Delete_def DeleteAll_def History_def Users_def DeleteUser_def
    DeleteUsers_def BatchUpdate_def BatchDelete_def GetProject_def UpdateProject_def
    GetWebhooks_def CreateWebhook_def UpdateWebhook_def DeleteWebhook_def Feedback_def
    GetEvent_def Let_def list_all_iff)

theorem non_success_is_APIError_witness:
  "Get test_client (answering \<lparr>StatusCode = 429, ResponseBody = ''rate limited''\<rparr>)
       (undecodable :: string \<Rightarrow> error + unit) ''m1'' =
     ([\<lparr>Method = ''GET'', URL = ''https://api.mem0.ai/v1/memories/m1/'',
        Header = [(''Authorization'', ''Token test-key''),
                  (''Content-Type'', ''application/json'')],
        Body = None\<rparr>],
      Inl (APIError ''API request failed with status 429: rate limited''))
   \<and> Add test_client (answering \<lparr>StatusCode = 429, ResponseBody = ''rate limited''\<rparr>)
       plain_lib (undecodable :: string \<Rightarrow> error + unit) (MString ''Hello'')
       MemoryOptions_zero =
     ([\<lparr>Method = ''POST'', URL = ''https://api.mem0.ai/v1/memories/'',
        Header = [(''Authorization'', ''Token test-key''),
                  (''Content-Type'', ''application/json'')],
        Body = Some (BodyMap
          [(''messages'', AMessages [\<lparr>Role = ''user'', Content = ''Hello''\<rparr>]),
           (''version'', AString ''v2''), (''async_mode'', ABool False)])\<rparr>],
      Inl (APIError ''API request failed with status 429: rate limited''))
   \<and> NewMemoryClient
       \<lparr>APIKey = ''test-key'', Host = '''', OrganizationName = '''',
        ClientOptions.ProjectName = '''', OrganizationID = '''',
        ClientOptions.ProjectID = ''''\<rparr>
       (answering \<lparr>StatusCode = 429, ResponseBody = ''rate limited''\<rparr>) undecodable =
     ([\<lparr>Method = ''GET'', URL = ''https://api.mem0.ai/v1/ping/'',
        Header = [(''Authorization'', ''Token test-key'')], Body = None\<rparr>],
      Inl (APIError ''API request failed with status 429: rate limited''))"
  using non_success_is_APIError [where
      net = "answering \<lparr>StatusCode = 429, ResponseBody = ''rate limited''\<rparr>"
      and resp = "\<lparr>StatusCode = 429, ResponseBody = ''rate limited''\<rparr>"
      and c = test_client and lib = plain_lib
      and unmarshal = "undecodable :: string \<Rightarrow> error + unit"
      and unmarshal_ping = undecodable
      and messages = "MString ''Hello''" and moptions = MemoryOptions_zero
      and payload = "[(''messages'', AMessages [\<lparr>Role = ''user'', Content = ''Hello''\<rparr>]),
                      (''version'', AString ''v2'')]"
      and ident = "''m1''"
      and options = "\<lparr>APIKey = ''test-key'', Host = '''', OrganizationName = '''',
        ClientOptions.ProjectName = '''', OrganizationID = '''',
        ClientOptions.ProjectID = ''''\<rparr>"]
  by (simp add: turned_down_def answering_def new_request_def refused_def finite_floats_def
      plain_lib_def float_finite_def request_failed_429
      preparePayload_def MemoryOptions_optionsMap_def MemoryOptions_entries_def
      MemoryOptions_zero_def with_org_project_def test_client_def client_of_def
      map_marshalable_def merge_def has_key_def IsDefault_def DefaultAPIVersion_def V2_def
      json_string_def json_int_def json_bool_def json_map_def json_categories_def
      json_messages_def Let_def)

end
